theory Spec2Isabelle
  imports Main
begin

section \<open>The CryptoPunks subgraph: entities, store and helpers\<close>

text \<open>
  The mapping code of the subgraph (\<open>crypto-punks-market.ts\<close> and \<open>utils/helpers.ts\<close>)
  is embedded as functions over an explicit entity store. A \<open>BigInt\<close> is an \<open>int\<close>,
  an address or a transaction hash is the string that \<open>toHexString()\<close> returns for it,
  an entity type is a record and the store holds one map from ids to entities per type.
  A handler that aborts (\<open>BigInt.toI32()\<close> on a value outside the 32-bit range) returns
  \<open>None\<close>.
\<close>

subsection \<open>Entities of \<open>schema.graphql\<close>\<close>

record Account =
  acc_id :: string
  acc_punks :: "string list"

record Punk =
  punk_id :: string
  punk_owner :: string
  punk_wrapped :: bool

record Listing =
  ls_id :: string
  ls_punk :: string
  ls_value :: int
  ls_usd :: "int option"
  ls_fromAccount :: string
  ls_toAccount :: string
  ls_isPrivate :: bool
  ls_blockNumber :: int
  ls_blockTimestamp :: int
  ls_transactionHash :: string

record Bid =
  bid_id :: string
  bid_punk :: string
  bid_value :: int
  bid_usd :: "int option"
  bid_fromAccount :: string
  bid_blockNumber :: int
  bid_blockTimestamp :: int
  bid_transactionHash :: string

record Event =
  ev_id :: string
  ev_transactionHash :: string
  ev_type :: string
  ev_tokenId :: int
  ev_fromAccount :: "string option"
  ev_toAccount :: "string option"
  ev_value :: int
  ev_usd :: "int option"
  ev_blockNumber :: int
  ev_blockTimestamp :: int

record State =
  st_id :: string
  st_timestamp :: int
  st_floor :: int
  st_volume :: int
  st_topBid :: "string option"
  st_bids :: int
  st_topSale :: "string option"
  st_sales :: int
  st_owners :: int
  st_activeListings :: "string list"
  st_listings :: int
  st_delistings :: int
  st_usd :: "int option"

record Transfer =
  tr_id :: string
  tr_from :: string
  tr_to :: string
  tr_transactionHash :: string
  tr_tokenId :: "string option"

subsection \<open>The entity store\<close>

record store =
  accounts :: "string \<rightharpoonup> Account"
  punks :: "string \<rightharpoonup> Punk"
  listings :: "string \<rightharpoonup> Listing"
  bids :: "string \<rightharpoonup> Bid"
  events :: "string \<rightharpoonup> Event"
  states :: "string \<rightharpoonup> State"
  transfers :: "string \<rightharpoonup> Transfer"

text \<open>
  \<open>X.load(id)\<close> returns the entity stored under \<open>id\<close>, whose \<open>id\<close> field is \<open>id\<close>;
  \<open>x.save()\<close> stores the entity under its own \<open>id\<close> field.
\<close>

definition Account_load :: "store \<Rightarrow> string \<Rightarrow> Account option" where
  "Account_load s i = map_option (\<lambda>a. a\<lparr>acc_id := i\<rparr>) (accounts s i)"

definition Account_save :: "Account \<Rightarrow> store \<Rightarrow> store" where
  "Account_save a s = s\<lparr>accounts := (accounts s)(acc_id a \<mapsto> a)\<rparr>"

definition Punk_load :: "store \<Rightarrow> string \<Rightarrow> Punk option" where
  "Punk_load s i = map_option (\<lambda>p. p\<lparr>punk_id := i\<rparr>) (punks s i)"

definition Punk_save :: "Punk \<Rightarrow> store \<Rightarrow> store" where
  "Punk_save p s = s\<lparr>punks := (punks s)(punk_id p \<mapsto> p)\<rparr>"

definition Listing_load :: "store \<Rightarrow> string \<Rightarrow> Listing option" where
  "Listing_load s i = map_option (\<lambda>l. l\<lparr>ls_id := i\<rparr>) (listings s i)"

definition Listing_save :: "Listing \<Rightarrow> store \<Rightarrow> store" where
  "Listing_save l s = s\<lparr>listings := (listings s)(ls_id l \<mapsto> l)\<rparr>"

definition Bid_load :: "store \<Rightarrow> string \<Rightarrow> Bid option" where
  "Bid_load s i = map_option (\<lambda>b. b\<lparr>bid_id := i\<rparr>) (bids s i)"

definition Bid_save :: "Bid \<Rightarrow> store \<Rightarrow> store" where
  "Bid_save b s = s\<lparr>bids := (bids s)(bid_id b \<mapsto> b)\<rparr>"

definition Event_load :: "store \<Rightarrow> string \<Rightarrow> Event option" where
  "Event_load s i = map_option (\<lambda>e. e\<lparr>ev_id := i\<rparr>) (events s i)"

definition Event_save :: "Event \<Rightarrow> store \<Rightarrow> store" where
  "Event_save e s = s\<lparr>events := (events s)(ev_id e \<mapsto> e)\<rparr>"

definition State_load :: "store \<Rightarrow> string \<Rightarrow> State option" where
  "State_load s i = map_option (\<lambda>st. st\<lparr>st_id := i\<rparr>) (states s i)"

definition State_save :: "State \<Rightarrow> store \<Rightarrow> store" where
  "State_save st s = s\<lparr>states := (states s)(st_id st \<mapsto> st)\<rparr>"

definition Transfer_load :: "store \<Rightarrow> string \<Rightarrow> Transfer option" where
  "Transfer_load s i = map_option (\<lambda>t. t\<lparr>tr_id := i\<rparr>) (transfers s i)"

definition Transfer_save :: "Transfer \<Rightarrow> store \<Rightarrow> store" where
  "Transfer_save t s = s\<lparr>transfers := (transfers s)(tr_id t \<mapsto> t)\<rparr>"

text \<open>\<open>store.remove('Listing', id)\<close> and \<open>store.remove('Bid', id)\<close>.\<close>

definition Listing_remove :: "string \<Rightarrow> store \<Rightarrow> store" where
  "Listing_remove i s = s\<lparr>listings := (listings s)(i := None)\<rparr>"

definition Bid_remove :: "string \<Rightarrow> store \<Rightarrow> store" where
  "Bid_remove i s = s\<lparr>bids := (bids s)(i := None)\<rparr>"

subsection \<open>What the mapping imports from outside the repository's sources\<close>

text \<open>
  \<open>utils/date-utils.ts\<close>, \<open>utils/conversions.ts\<close> and \<open>utils/constants.ts\<close> are not part
  of the sources at hand, so the bucket id function \<open>timestampToId(ts, offset)\<close> (offset 0
  when the call omits it), the price oracle \<open>USDValue(timestamp, blockNumber)\<close> and the
  constant \<open>ZERO_ADDRESS\<close> are parameters of every function that uses them.
  \<open>BIGINT_ZERO\<close> and \<open>BIGINT_ONE\<close> are the numbers their names say.
\<close>

record env =
  timestampToId :: "int \<Rightarrow> int \<Rightarrow> string"
  USDValue :: "int \<Rightarrow> int \<Rightarrow> int"
  ZERO_ADDRESS :: string

abbreviation (input) BIGINT_ZERO :: int where
  "BIGINT_ZERO \<equiv> 0"

abbreviation (input) BIGINT_ONE :: int where
  "BIGINT_ONE \<equiv> 1"

text \<open>
  \<open>BigInt.toI32()\<close>: the value itself when it fits into 32 signed bits, an abort of the
  handler otherwise.
\<close>

definition toI32 :: "int \<Rightarrow> int option" where
  "toI32 n = (if - (2 ^ 31) \<le> n \<and> n < 2 ^ 31 then Some n else None)"

text \<open>\<open>BigInt.toString()\<close>: the decimal representation.\<close>

function natToString :: "nat \<Rightarrow> string" where
  "natToString n =
     (if n < 10 then [''0123456789'' ! n]
      else natToString (n div 10) @ [''0123456789'' ! (n mod 10)])"
  by pat_completeness auto
termination
  by (relation "measure id") auto

declare natToString.simps [simp del]

definition bigIntToString :: "int \<Rightarrow> string" where
  "bigIntToString i = (if i < 0 then CHR ''-'' # natToString (nat (- i)) else natToString (nat i))"

text \<open>\<open>String.toLowerCase()\<close> on the ASCII strings that addresses are.\<close>

definition lowerChar :: "char \<Rightarrow> char" where
  "lowerChar c =
     (if 65 \<le> (of_char c :: nat) \<and> (of_char c :: nat) \<le> 90 then char_of (of_char c + 32 :: nat) else c)"

definition toLowerCase :: "string \<Rightarrow> string" where
  "toLowerCase str = map lowerChar str"

text \<open>
  The fields of \<open>ethereum.Event\<close> that the handlers read: \<open>transaction.hash\<close>,
  \<open>transaction.from\<close>, \<open>logIndex\<close>, \<open>block.number\<close> and \<open>block.timestamp\<close>. The event's
  own parameters are arguments of its handler, under their names in the contract's ABI.
\<close>

record ethereum_Event =
  transaction_hash :: string
  transaction_from :: string
  logIndex :: int
  block_number :: int
  block_timestamp :: int

subsection \<open>\<open>utils/helpers.ts\<close>\<close>

definition getGlobalId :: "ethereum_Event \<Rightarrow> string" where
  "getGlobalId event = transaction_hash event @ ''-'' @ bigIntToString (logIndex event)"

text \<open>
  \<open>getOrCreateAccount\<close> and \<open>getOrCreatePunk\<close>, with \<open>createIfNotFound\<close> and \<open>save\<close> at
  their default \<open>true\<close>, as every call in the mapping has them. The store comes back
  with the entity.
\<close>

definition getOrCreateAccount :: "store \<Rightarrow> string \<Rightarrow> Account \<times> store" where
  "getOrCreateAccount s i =
     (case Account_load s i of
        Some account \<Rightarrow> (account, s)
      | None \<Rightarrow>
          (let account = \<lparr>acc_id = i, acc_punks = []\<rparr>
           in (account, Account_save account s)))"

definition getOrCreatePunk :: "env \<Rightarrow> store \<Rightarrow> string \<Rightarrow> Punk \<times> store" where
  "getOrCreatePunk e s i =
     (case Punk_load s i of
        Some punk \<Rightarrow> (punk, s)
      | None \<Rightarrow>
          (let punk = \<lparr>punk_id = i, punk_owner = ZERO_ADDRESS e, punk_wrapped = False\<rparr>
           in (punk, Punk_save punk s)))"

text \<open>
  The loop of \<open>getFloorFromActiveListings\<close>: \<open>newFloor\<close> is the accumulator, \<open>None\<close> for
  \<open>null\<close>.
\<close>

fun floorLoop :: "store \<Rightarrow> string list \<Rightarrow> int option \<Rightarrow> int option" where
  "floorLoop s [] newFloor = newFloor"
| "floorLoop s (i # rest) newFloor =
     floorLoop s rest
       (case Listing_load s i of
          None \<Rightarrow> newFloor
        | Some listing \<Rightarrow>
            if ls_value listing > BIGINT_ZERO then
              (case newFloor of
                 None \<Rightarrow> Some (ls_value listing)
               | Some f \<Rightarrow> if ls_value listing < f then Some (ls_value listing) else Some f)
            else newFloor)"

definition getFloorFromActiveListings :: "env \<Rightarrow> store \<Rightarrow> State \<Rightarrow> int option" where
  "getFloorFromActiveListings e s state =
     (case toI32 (st_timestamp state) of
        None \<Rightarrow> None
      | Some ts \<Rightarrow>
          (let prevId = timestampToId e ts 1;
               prevState = State_load s prevId;
               prevFloor = (case prevState of Some p \<Rightarrow> st_floor p | None \<Rightarrow> BIGINT_ZERO);
               listings = st_activeListings state
           in if length listings < 5 then Some prevFloor
              else (case floorLoop s listings None of
                      Some newFloor \<Rightarrow> Some newFloor
                    | None \<Rightarrow> Some BIGINT_ZERO)))"

text \<open>
  The \<open>do ... while (!prevState && i <= 30)\<close> loop of \<open>getOrCreateState\<close>, entered with
  \<open>i = 1\<close>: the body loads the snapshot \<open>i\<close> buckets back and increments \<open>i\<close>.
\<close>

function prevStateLoop :: "env \<Rightarrow> store \<Rightarrow> int \<Rightarrow> int \<Rightarrow> State option" where
  "prevStateLoop e s ts i =
     (let prevId = timestampToId e ts i;
          prevState = State_load s prevId;
          i' = i + 1
      in if prevState = None \<and> i' \<le> 30 then prevStateLoop e s ts i' else prevState)"
  by pat_completeness auto
termination
  by (relation "measure (\<lambda>(e, s, ts, i). nat (30 - i))") auto

declare prevStateLoop.simps [simp del]

definition getOrCreateState :: "env \<Rightarrow> store \<Rightarrow> int \<Rightarrow> State option" where
  "getOrCreateState e s timestamp =
     (case toI32 timestamp of
        None \<Rightarrow> None
      | Some ts \<Rightarrow>
          (let i = timestampToId e ts 0;
               prevState = prevStateLoop e s ts 1;
               prevListings = (case prevState of Some p \<Rightarrow> st_activeListings p | None \<Rightarrow> []);
               prevOwners = (case prevState of Some p \<Rightarrow> st_owners p | None \<Rightarrow> BIGINT_ZERO)
           in case State_load s i of
                Some state \<Rightarrow> Some state
              | None \<Rightarrow>
                  (let state = \<lparr>st_id = i, st_timestamp = timestamp, st_floor = BIGINT_ZERO,
                                st_volume = BIGINT_ZERO, st_topBid = None, st_bids = BIGINT_ZERO,
                                st_topSale = None, st_sales = BIGINT_ZERO, st_owners = prevOwners,
                                st_activeListings = prevListings, st_listings = BIGINT_ZERO,
                                st_delistings = BIGINT_ZERO, st_usd = None\<rparr>
                   in if length prevListings > 0 then
                        (case getFloorFromActiveListings e s state of
                           None \<Rightarrow> None
                         | Some newFloor \<Rightarrow> Some (state\<lparr>st_floor := newFloor\<rparr>))
                      else Some state)))"

definition updateOwnership ::
  "env \<Rightarrow> store \<Rightarrow> string \<Rightarrow> int \<Rightarrow> string \<Rightarrow> string \<Rightarrow> string \<Rightarrow> store option" where
  "updateOwnership e s transactionHash blockTimestamp punkId toAddress fromAddress =
     (let (toAccount, s1) = getOrCreateAccount s toAddress;
          (fromAccount, s2) = getOrCreateAccount s1 fromAddress;
          toHolderPunks = acc_punks toAccount;
          fromHolderPunks = acc_punks fromAccount
      in case getOrCreateState e s2 blockTimestamp of
           None \<Rightarrow> None
         | Some state \<Rightarrow>
             (let prevOwners = st_owners state;
                  prevOwners = (if length fromHolderPunks = 1 then prevOwners - BIGINT_ONE
                                else prevOwners);
                  prevOwners = (if length toHolderPunks = 0 then prevOwners + BIGINT_ONE
                                else prevOwners);
                  s3 = State_save (state\<lparr>st_owners := prevOwners\<rparr>) s2;
                  newFromHolderPunks = filter (\<lambda>n. n \<noteq> punkId) fromHolderPunks;
                  fromAccount = fromAccount\<lparr>acc_punks := newFromHolderPunks\<rparr>;
                  toHolderPunks = toHolderPunks @ [punkId];
                  toAccount = toAccount\<lparr>acc_punks := toHolderPunks\<rparr>;
                  s4 = Account_save fromAccount s3;
                  s5 = Account_save toAccount s4;
                  (punk, s6) = getOrCreatePunk e s5 punkId
              in Some (Punk_save (punk\<lparr>punk_owner := acc_id toAccount\<rparr>) s6)))"

definition loadPrevBidEvent :: "store \<Rightarrow> string option \<Rightarrow> Event option" where
  "loadPrevBidEvent s topBid =
     (case topBid of None \<Rightarrow> None | Some i \<Rightarrow> Event_load s i)"

definition loadPrevSaleEvent :: "store \<Rightarrow> string option \<Rightarrow> Event option" where
  "loadPrevSaleEvent s topSale =
     (case topSale of None \<Rightarrow> None | Some i \<Rightarrow> Event_load s i)"

definition setPunkNoLongerForSale :: "store \<Rightarrow> string \<Rightarrow> bool \<Rightarrow> store" where
  "setPunkNoLongerForSale s punkId removeBid =
     (let s1 = (case Listing_load s punkId of
                  Some listing \<Rightarrow> Listing_remove punkId s
                | None \<Rightarrow> s)
      in if removeBid then
           (case Bid_load s1 punkId of
              Some bid \<Rightarrow> Bid_remove punkId s1
            | None \<Rightarrow> s1)
         else s1)"

subsection \<open>\<open>crypto-punks-market.ts\<close>: the handlers\<close>

text \<open>\<open>handleTransfer\<close> records the raw transfer under the transaction's hash.\<close>

definition handleTransfer :: "store \<Rightarrow> ethereum_Event \<Rightarrow> string \<Rightarrow> string \<Rightarrow> store" where
  "handleTransfer s event from to =
     Transfer_save \<lparr>tr_id = transaction_hash event, tr_from = from, tr_to = to,
                    tr_transactionHash = transaction_hash event, tr_tokenId = None\<rparr> s"

text \<open>
  \<open>handlePunkBought\<close>. The flag \<open>isWash\<close> is computed and never read, so it is left out.
  The early \<open>return\<close> after \<open>updateOwnership\<close> is the branch that gives back the store
  as \<open>updateOwnership\<close> left it.
\<close>

definition handlePunkBought ::
  "env \<Rightarrow> store \<Rightarrow> ethereum_Event \<Rightarrow> int \<Rightarrow> int \<Rightarrow> string \<Rightarrow> string \<Rightarrow> store option" where
  "handlePunkBought e s event punkIndex value fromAddress toAddress =
     (let punkBoughtTokenId = bigIntToString punkIndex;
          (fromAccount, s1) = getOrCreateAccount s fromAddress;
          (toAccount, s2) = getOrCreateAccount s1 toAddress;
          bid = Bid_load s2 punkBoughtTokenId;
          (toAccount, value, s3) =
            (if acc_id toAccount = ZERO_ADDRESS e then
               (case bid of
                  Some b \<Rightarrow>
                    (let (bidder, s') = getOrCreateAccount s2 (bid_fromAccount b)
                     in (bidder, bid_value b, setPunkNoLongerForSale s' punkBoughtTokenId True))
                | None \<Rightarrow> (toAccount, value, setPunkNoLongerForSale s2 punkBoughtTokenId True))
             else if (case bid of
                        Some b \<Rightarrow> toLowerCase (bid_fromAccount b) = toLowerCase (acc_id toAccount)
                      | None \<Rightarrow> False) then
               (toAccount, value, setPunkNoLongerForSale s2 punkBoughtTokenId True)
             else (toAccount, value, setPunkNoLongerForSale s2 punkBoughtTokenId False))
      in case updateOwnership e s3 (transaction_hash event) (block_timestamp event)
                punkBoughtTokenId (acc_id toAccount) (acc_id fromAccount) of
           None \<Rightarrow> None
         | Some s4 \<Rightarrow>
             if bid = None \<and> value = BIGINT_ZERO then Some s4
             else
               (let evntId = getGlobalId event;
                    evnt = \<lparr>ev_id = evntId, ev_transactionHash = transaction_hash event,
                            ev_type = ''Sale'', ev_tokenId = punkIndex,
                            ev_fromAccount = Some (acc_id fromAccount),
                            ev_toAccount = Some (acc_id toAccount), ev_value = value,
                            ev_usd = Some (USDValue e (block_timestamp event) (block_number event)),
                            ev_blockNumber = block_number event,
                            ev_blockTimestamp = block_timestamp event\<rparr>;
                    s5 = Event_save evnt s4
                in case getOrCreateState e s5 (block_timestamp event) of
                     None \<Rightarrow> None
                   | Some state \<Rightarrow>
                       (let topSale = st_topSale state;
                            prevSaleEvent = loadPrevSaleEvent s5 topSale;
                            state =
                              (case prevSaleEvent of
                                 Some p \<Rightarrow>
                                   if ev_value p > BIGINT_ZERO then
                                     (if value > ev_value p then state\<lparr>st_topSale := Some evntId\<rparr>
                                      else state)
                                   else state\<lparr>st_topSale := Some evntId\<rparr>
                               | None \<Rightarrow> state\<lparr>st_topSale := Some evntId\<rparr>);
                            newActiveListings = st_activeListings state;
                            newActiveListings =
                              (if punkBoughtTokenId \<in> set newActiveListings then
                                 filter (\<lambda>i. i \<noteq> punkBoughtTokenId) newActiveListings
                               else newActiveListings);
                            state = state\<lparr>st_activeListings := newActiveListings\<rparr>
                        in case getFloorFromActiveListings e s5 state of
                             None \<Rightarrow> None
                           | Some newFloor \<Rightarrow>
                               Some (State_save
                                 (state\<lparr>st_floor := newFloor,
                                        st_sales := st_sales state + BIGINT_ONE,
                                        st_volume := st_volume state + value,
                                        st_usd := Some (USDValue e (block_timestamp event)
                                                          (block_number event))\<rparr>) s5))))"

text \<open>
  \<open>handlePunkOffered\<close>. Of the punk only its id is read, and every field of the listing
  but its id is overwritten, so a listing that was loaded and a new one differ in nothing.
\<close>

definition handlePunkOffered ::
  "env \<Rightarrow> store \<Rightarrow> ethereum_Event \<Rightarrow> int \<Rightarrow> int \<Rightarrow> string \<Rightarrow> store option" where
  "handlePunkOffered e s event punkIndex minValue toAddress =
     (let punkOfferedTokenId = bigIntToString punkIndex;
          (fromAccount, s1) = getOrCreateAccount s (transaction_from event);
          (toAccount, s2) = getOrCreateAccount s1 toAddress;
          punkId = (case Punk_load s2 punkOfferedTokenId of
                      Some punk \<Rightarrow> punk_id punk
                    | None \<Rightarrow> punkOfferedTokenId);
          listingId = (case Listing_load s2 punkOfferedTokenId of
                         Some listing \<Rightarrow> ls_id listing
                       | None \<Rightarrow> punkOfferedTokenId);
          isPrivate = (if acc_id toAccount \<noteq> ZERO_ADDRESS e then True else False);
          listing = \<lparr>ls_id = listingId, ls_punk = punkId, ls_value = minValue,
                     ls_usd = Some (USDValue e (block_timestamp event) (block_number event)),
                     ls_fromAccount = acc_id fromAccount, ls_toAccount = acc_id toAccount,
                     ls_isPrivate = isPrivate, ls_blockNumber = block_number event,
                     ls_blockTimestamp = block_timestamp event,
                     ls_transactionHash = transaction_hash event\<rparr>;
          s3 = Listing_save listing s2;
          evntId = getGlobalId event;
          evnt = \<lparr>ev_id = evntId, ev_transactionHash = transaction_hash event,
                  ev_type = ''Offered'', ev_tokenId = punkIndex,
                  ev_fromAccount = Some (acc_id fromAccount),
                  ev_toAccount = Some (acc_id toAccount), ev_value = minValue,
                  ev_usd = Some (USDValue e (block_timestamp event) (block_number event)),
                  ev_blockNumber = block_number event,
                  ev_blockTimestamp = block_timestamp event\<rparr>;
          s4 = Event_save evnt s3
      in case getOrCreateState e s4 (block_timestamp event) of
           None \<Rightarrow> None
         | Some state \<Rightarrow>
             (let newListingState = st_listings state + BIGINT_ONE;
                  state = state\<lparr>st_listings := newListingState\<rparr>;
                  activeListings = st_activeListings state @ [punkOfferedTokenId];
                  state = state\<lparr>st_activeListings := activeListings\<rparr>;
                  listingVal = minValue;
                  state = (if acc_id toAccount \<noteq> ZERO_ADDRESS e \<and> listingVal \<noteq> BIGINT_ZERO
                              \<and> listingVal < st_floor state
                           then state\<lparr>st_floor := listingVal\<rparr> else state)
              in Some (State_save
                   (state\<lparr>st_usd := Some (USDValue e (block_timestamp event)
                                            (block_number event))\<rparr>) s4)))"

text \<open>\<open>handlePunkBidEntered\<close>, with the same remark on the punk and the bid.\<close>

definition handlePunkBidEntered ::
  "env \<Rightarrow> store \<Rightarrow> ethereum_Event \<Rightarrow> int \<Rightarrow> int \<Rightarrow> string \<Rightarrow> store option" where
  "handlePunkBidEntered e s event punkIndex value fromAddress =
     (let punkBidEnteredTokenId = bigIntToString punkIndex;
          (fromAccount, s1) = getOrCreateAccount s fromAddress;
          punkId = (case Punk_load s1 punkBidEnteredTokenId of
                      Some punk \<Rightarrow> punk_id punk
                    | None \<Rightarrow> punkBidEnteredTokenId);
          bidId = (case Bid_load s1 punkBidEnteredTokenId of
                     Some bid \<Rightarrow> bid_id bid
                   | None \<Rightarrow> punkBidEnteredTokenId);
          bid = \<lparr>bid_id = bidId, bid_punk = punkId, bid_value = value,
                 bid_usd = Some (USDValue e (block_timestamp event) (block_number event)),
                 bid_fromAccount = acc_id fromAccount, bid_blockNumber = block_number event,
                 bid_blockTimestamp = block_timestamp event,
                 bid_transactionHash = transaction_hash event\<rparr>;
          s2 = Bid_save bid s1;
          evntId = getGlobalId event;
          evnt = \<lparr>ev_id = evntId, ev_transactionHash = transaction_hash event,
                  ev_type = ''BidEntered'', ev_tokenId = punkIndex,
                  ev_fromAccount = Some (acc_id fromAccount),
                  ev_toAccount = Some (ZERO_ADDRESS e), ev_value = value,
                  ev_usd = Some (USDValue e (block_timestamp event) (block_number event)),
                  ev_blockNumber = block_number event,
                  ev_blockTimestamp = block_timestamp event\<rparr>;
          s3 = Event_save evnt s2
      in case getOrCreateState e s3 (block_timestamp event) of
           None \<Rightarrow> None
         | Some state \<Rightarrow>
             (let topBid = st_topBid state;
                  prevBidEvent = loadPrevBidEvent s3 topBid;
                  state =
                    (case prevBidEvent of
                       Some p \<Rightarrow>
                         if ev_value p > BIGINT_ZERO then
                           (if value > ev_value p then state\<lparr>st_topBid := Some evntId\<rparr>
                            else state)
                         else state\<lparr>st_topBid := Some evntId\<rparr>
                     | None \<Rightarrow> state\<lparr>st_topBid := Some evntId\<rparr>)
              in Some (State_save
                   (state\<lparr>st_usd := Some (USDValue e (block_timestamp event)
                                            (block_number event)),
                          st_bids := st_bids state + BIGINT_ONE\<rparr>) s3)))"

text \<open>
  \<open>handlePunkNoLongerForSale\<close>. The \<open>tokenId\<close> written to the loaded transfer is never
  saved, so only the presence of the transfer matters.
\<close>

definition handlePunkNoLongerForSale ::
  "env \<Rightarrow> store \<Rightarrow> ethereum_Event \<Rightarrow> int \<Rightarrow> store option" where
  "handlePunkNoLongerForSale e s event punkIndex =
     (let punkNoLongerForSaleTokenId = bigIntToString punkIndex;
          s1 = setPunkNoLongerForSale s punkNoLongerForSaleTokenId False;
          isBuy = (case Transfer_load s1 (transaction_hash event) of
                     Some transfer \<Rightarrow> True
                   | None \<Rightarrow> False)
      in case getOrCreateState e s1 (block_timestamp event) of
           None \<Rightarrow> None
         | Some state \<Rightarrow>
             (let (state, s2) =
                    (if \<not> isBuy then
                       (let evntId = getGlobalId event;
                            evnt = \<lparr>ev_id = evntId, ev_transactionHash = transaction_hash event,
                                    ev_type = ''OfferWithdrawn'', ev_tokenId = punkIndex,
                                    ev_fromAccount = Some (ZERO_ADDRESS e),
                                    ev_toAccount = Some (ZERO_ADDRESS e), ev_value = BIGINT_ZERO,
                                    ev_usd = Some (USDValue e (block_timestamp event)
                                                     (block_number event)),
                                    ev_blockNumber = block_number event,
                                    ev_blockTimestamp = block_timestamp event\<rparr>;
                            s2 = Event_save evnt s1;
                            delistings = st_delistings state;
                            delistings = delistings + BIGINT_ONE
                        in (state\<lparr>st_delistings := delistings\<rparr>, s2))
                     else (state, s1));
                  newActiveListings = st_activeListings state;
                  newActiveListings =
                    (if punkNoLongerForSaleTokenId \<in> set (st_activeListings state) then
                       filter (\<lambda>i. i \<noteq> punkNoLongerForSaleTokenId) (st_activeListings state)
                     else newActiveListings);
                  state = state\<lparr>st_activeListings := newActiveListings\<rparr>
              in case getFloorFromActiveListings e s2 state of
                   None \<Rightarrow> None
                 | Some newFloor \<Rightarrow>
                     Some (State_save
                       (state\<lparr>st_floor := newFloor,
                              st_usd := Some (USDValue e (block_timestamp event)
                                                (block_number event))\<rparr>) s2)))"

section \<open>Auxiliary definitions for the statements\<close>

text \<open>
  The values that the floor is the minimum of: the values of the listings that the ids
  refer to, where the listing exists and its value is positive.
\<close>

definition positiveValues :: "store \<Rightarrow> string list \<Rightarrow> int list" where
  "positiveValues s ids =
     filter (\<lambda>v. 0 < v) (List.map_filter (\<lambda>i. map_option ls_value (listings s i)) ids)"

definition minOpt :: "int option \<Rightarrow> int list \<Rightarrow> int option" where
  "minOpt acc vs = (case acc of None \<Rightarrow> (if vs = [] then None else Some (Min (set vs)))
                    | Some f \<Rightarrow> Some (Min (set (f # vs))))"

text \<open>The punks that an account holds in the store; none when the store has no such account.\<close>

definition heldPunks :: "store \<Rightarrow> string \<Rightarrow> string list" where
  "heldPunks s a = (case Account_load s a of Some account \<Rightarrow> acc_punks account | None \<Rightarrow> [])"

text \<open>
  The listing that \<open>handlePunkOffered\<close> saves, and the log record that a handler saves.
\<close>

definition offeredListing :: "env \<Rightarrow> ethereum_Event \<Rightarrow> int \<Rightarrow> int \<Rightarrow> string \<Rightarrow> Listing" where
  "offeredListing e event punkIndex minValue toAddress =
     \<lparr>ls_id = bigIntToString punkIndex, ls_punk = bigIntToString punkIndex, ls_value = minValue,
      ls_usd = Some (USDValue e (block_timestamp event) (block_number event)),
      ls_fromAccount = transaction_from event, ls_toAccount = toAddress,
      ls_isPrivate = (toAddress \<noteq> ZERO_ADDRESS e), ls_blockNumber = block_number event,
      ls_blockTimestamp = block_timestamp event, ls_transactionHash = transaction_hash event\<rparr>"

definition mkEvent ::
  "env \<Rightarrow> ethereum_Event \<Rightarrow> string \<Rightarrow> int \<Rightarrow> string \<Rightarrow> string \<Rightarrow> int \<Rightarrow> Event" where
  "mkEvent e event type punkIndex fromAccount toAccount value =
     \<lparr>ev_id = getGlobalId event, ev_transactionHash = transaction_hash event, ev_type = type,
      ev_tokenId = punkIndex, ev_fromAccount = Some fromAccount, ev_toAccount = Some toAccount,
      ev_value = value,
      ev_usd = Some (USDValue e (block_timestamp event) (block_number event)),
      ev_blockNumber = block_number event, ev_blockTimestamp = block_timestamp event\<rparr>"

text \<open>
  The rule of the top bid and the top sale, in the words of the specification: the
  candidate becomes the top when no top is referenced, when the event referenced does not
  exist or when its value is not strictly positive; otherwise it replaces the top when its
  value is strictly greater, and the top stays when it is not.
\<close>

definition considerTop ::
  "string option \<Rightarrow> (string \<rightharpoonup> Event) \<Rightarrow> string \<Rightarrow> int \<Rightarrow> string option" where
  "considerTop topId evs candidateId candidateValue =
     (case topId of
        None \<Rightarrow> Some candidateId
      | Some t \<Rightarrow>
          (case evs t of
             None \<Rightarrow> Some candidateId
           | Some p \<Rightarrow>
               if \<not> 0 < ev_value p then Some candidateId
               else if ev_value p < candidateValue then Some candidateId
               else Some t))"

text \<open>
  The buyer and the value of a sale as \<open>handlePunkBought\<close> resolves them (those of the bid,
  when the buyer reported is the zero address and the punk has a bid), and whether the
  handler removes the bid.
\<close>

definition resolvedBuyer :: "env \<Rightarrow> store \<Rightarrow> int \<Rightarrow> string \<Rightarrow> string" where
  "resolvedBuyer e s punkIndex toAddress =
     (if toAddress = ZERO_ADDRESS e then
        (case bids s (bigIntToString punkIndex) of
           Some bid \<Rightarrow> bid_fromAccount bid
         | None \<Rightarrow> toAddress)
      else toAddress)"

definition resolvedValue :: "env \<Rightarrow> store \<Rightarrow> int \<Rightarrow> int \<Rightarrow> string \<Rightarrow> int" where
  "resolvedValue e s punkIndex value toAddress =
     (if toAddress = ZERO_ADDRESS e then
        (case bids s (bigIntToString punkIndex) of
           Some bid \<Rightarrow> bid_value bid
         | None \<Rightarrow> value)
      else value)"

definition closesBid :: "env \<Rightarrow> store \<Rightarrow> int \<Rightarrow> string \<Rightarrow> bool" where
  "closesBid e s punkIndex toAddress =
     (toAddress = ZERO_ADDRESS e \<or>
      (case bids s (bigIntToString punkIndex) of
         Some bid \<Rightarrow> toLowerCase (bid_fromAccount bid) = toLowerCase toAddress
       | None \<Rightarrow> False))"

text \<open>Example parameters and stores, on which the theorems below are instantiated.\<close>

definition env0 :: env where
  "env0 = \<lparr>timestampToId = (\<lambda>ts offset. bigIntToString (ts div 86400 - offset)),
           USDValue = (\<lambda>timestamp blockNumber. 0), ZERO_ADDRESS = ''0x0''\<rparr>"

definition emptyStore :: store where
  "emptyStore = \<lparr>accounts = Map.empty, punks = Map.empty, listings = Map.empty,
                 bids = Map.empty, events = Map.empty, states = Map.empty,
                 transfers = Map.empty\<rparr>"

definition mkListing :: "string \<Rightarrow> int \<Rightarrow> Listing" where
  "mkListing i v = \<lparr>ls_id = i, ls_punk = i, ls_value = v, ls_usd = None,
                    ls_fromAccount = ''0xa'', ls_toAccount = ''0x0'', ls_isPrivate = False,
                    ls_blockNumber = 1, ls_blockTimestamp = 1, ls_transactionHash = ''0xh''\<rparr>"

definition mkState :: "string \<Rightarrow> int \<Rightarrow> int \<Rightarrow> int \<Rightarrow> string list \<Rightarrow> State" where
  "mkState i ts fl ow ids = \<lparr>st_id = i, st_timestamp = ts, st_floor = fl, st_volume = 0,
                   st_topBid = None, st_bids = 0, st_topSale = None, st_sales = 0,
                   st_owners = ow, st_activeListings = ids, st_listings = 0,
                   st_delistings = 0, st_usd = None\<rparr>"

definition fiveListings :: store where
  "fiveListings = emptyStore\<lparr>listings :=
     [''1'' \<mapsto> mkListing ''1'' 100, ''2'' \<mapsto> mkListing ''2'' 0, ''3'' \<mapsto> mkListing ''3'' 50,
      ''4'' \<mapsto> mkListing ''4'' 200, ''5'' \<mapsto> mkListing ''5'' 80]\<rparr>"

definition twoSnapshots :: store where
  "twoSnapshots = emptyStore\<lparr>states :=
     [''1'' \<mapsto> mkState ''1'' 86400 3 9 [''4'', ''5''], ''2'' \<mapsto> mkState ''2'' 172800 5 12 [''7'']]\<rparr>"

definition oneOwner :: store where
  "oneOwner = emptyStore\<lparr>accounts := [''0xa'' \<mapsto> \<lparr>acc_id = ''0xa'', acc_punks = [''7'']\<rparr>],
                          states := [''2'' \<mapsto> mkState ''2'' 172800 0 1 []]\<rparr>"

definition dupOwner :: store where
  "dupOwner = emptyStore\<lparr>accounts := [''0xa'' \<mapsto> \<lparr>acc_id = ''0xa'', acc_punks = [''7'', ''7'']\<rparr>],
                          states := [''2'' \<mapsto> mkState ''2'' 172800 0 1 []]\<rparr>"

definition offerEvent :: ethereum_Event where
  "offerEvent = \<lparr>transaction_hash = ''0xh'', transaction_from = ''0xa'', logIndex = 3,
                  block_number = 10, block_timestamp = 172800\<rparr>"

definition floorStore :: store where
  "floorStore = emptyStore\<lparr>states := [''2'' \<mapsto> mkState ''2'' 172800 100 0 []]\<rparr>"

definition fourTimesListed :: store where
  "fourTimesListed =
     emptyStore\<lparr>states := [''2'' \<mapsto> mkState ''2'' 172800 0 0 [''7'', ''7'', ''7'', ''7'']]\<rparr>"

definition prevEvent :: ethereum_Event where
  "prevEvent = \<lparr>transaction_hash = ''0xg'', transaction_from = ''0xc'', logIndex = 1,
                 block_number = 9, block_timestamp = 172700\<rparr>"

definition topSnapshot :: State where
  "topSnapshot = (mkState ''2'' 172800 0 0 [])\<lparr>st_topBid := Some ''0xg-1'',
                                                 st_topSale := Some ''0xg-1''\<rparr>"

definition topStore :: store where
  "topStore = emptyStore\<lparr>
     events := [''0xg-1'' \<mapsto> mkEvent env0 prevEvent ''BidEntered'' 1 ''0xc'' ''0x0'' 50],
     states := [''2'' \<mapsto> topSnapshot]\<rparr>"

definition mkBid :: "string \<Rightarrow> int \<Rightarrow> string \<Rightarrow> Bid" where
  "mkBid i v bidder = \<lparr>bid_id = i, bid_punk = i, bid_value = v, bid_usd = None,
                       bid_fromAccount = bidder, bid_blockNumber = 1, bid_blockTimestamp = 1,
                       bid_transactionHash = ''0xf''\<rparr>"

definition bidStore :: store where
  "bidStore = emptyStore\<lparr>
     listings := [''3'' \<mapsto> mkListing ''3'' 70],
     bids := [''3'' \<mapsto> mkBid ''3'' 50 ''0xb''],
     states := [''2'' \<mapsto> mkState ''2'' 172800 0 1 [''3'']]\<rparr>"

definition listedStore :: store where
  "listedStore = emptyStore\<lparr>
     listings := [''7'' \<mapsto> mkListing ''7'' 100],
     states := [''2'' \<mapsto> (mkState ''2'' 172800 0 1 [''7''])\<lparr>st_listings := 1\<rparr>]\<rparr>"

section \<open>Properties of the helpers\<close>

lemma set_positiveValues:
  "set (positiveValues s ids) =
     {v. \<exists>i l. i \<in> set ids \<and> listings s i = Some l \<and> v = ls_value l \<and> 0 < v}"
  by (force simp: positiveValues_def List.map_filter_def image_iff)

lemma positiveValues_Cons:
  "positiveValues s (i # ids) =
     (case listings s i of
        None \<Rightarrow> positiveValues s ids
      | Some l \<Rightarrow> if 0 < ls_value l then ls_value l # positiveValues s ids
                  else positiveValues s ids)"
  by (simp add: positiveValues_def List.map_filter_def split: option.splits)

lemma positiveValues_Nil: "positiveValues s [] = []"
  by (simp add: positiveValues_def List.map_filter_def)

lemma floorLoop_min:
  "floorLoop s ids acc = minOpt acc (positiveValues s ids)"
proof (induction ids arbitrary: acc)
  case Nil
  then show ?case by (simp add: positiveValues_Nil minOpt_def split: option.splits)
next
  case (Cons i ids)
  show ?case
    apply (simp add: Cons.IH positiveValues_Cons Listing_load_def minOpt_def split: option.splits)
    apply (auto simp: min_def)
    done
qed

lemma floorLoop_cong: "listings s = listings s' \<Longrightarrow> floorLoop s ids acc = floorLoop s' ids acc"
  by (induction ids arbitrary: acc) (simp_all add: Listing_load_def)

lemma prevStateLoop_cong:
  "states s = states s' \<Longrightarrow> prevStateLoop e s ts i = prevStateLoop e s' ts i"
proof (induction e s ts i rule: prevStateLoop.induct)
  case (1 e s ts i)
  show ?case
    using 1
    by (subst prevStateLoop.simps, subst (2) prevStateLoop.simps)
       (simp add: State_load_def Let_def)
qed

lemma getFloor_cong:
  "states s = states s' \<Longrightarrow> listings s = listings s' \<Longrightarrow>
   getFloorFromActiveListings e s st = getFloorFromActiveListings e s' st"
  unfolding getFloorFromActiveListings_def State_load_def Let_def
  using floorLoop_cong [of s s' "st_activeListings st" None] by (simp split: option.splits)

lemma getOrCreateState_cong:
  "states s = states s' \<Longrightarrow> listings s = listings s' \<Longrightarrow>
   getOrCreateState e s ts = getOrCreateState e s' ts"
  unfolding getOrCreateState_def State_load_def Let_def
  using prevStateLoop_cong [of s s' e] getFloor_cong [of s s' e] by (simp split: option.splits)

lemma prevStateLoop_none:
  "i \<le> 30 \<Longrightarrow> \<forall>j. i \<le> j \<and> j \<le> 30 \<longrightarrow> states s (timestampToId e ts j) = None \<Longrightarrow>
   prevStateLoop e s ts i = None"
proof (induction e s ts i rule: prevStateLoop.induct)
  case (1 e s ts i)
  have here: "State_load s (timestampToId e ts i) = None"
    using "1.prems" by (simp add: State_load_def)
  show ?case
  proof (cases "i + 1 \<le> 30")
    case True
    have "prevStateLoop e s ts (i + 1) = None"
      using "1.IH" [OF refl refl refl] here True "1.prems" by simp
    then show ?thesis
      using here True by (subst prevStateLoop.simps) (simp add: Let_def)
  next
    case False
    then show ?thesis
      using here by (subst prevStateLoop.simps) (simp add: Let_def)
  qed
qed

lemma prevStateLoop_first:
  "i \<le> k \<Longrightarrow> k \<le> 30 \<Longrightarrow> states s (timestampToId e ts k) = Some p \<Longrightarrow>
   \<forall>j. i \<le> j \<and> j < k \<longrightarrow> states s (timestampToId e ts j) = None \<Longrightarrow>
   prevStateLoop e s ts i = State_load s (timestampToId e ts k)"
proof (induction e s ts i rule: prevStateLoop.induct)
  case (1 e s ts i)
  show ?case
  proof (cases "i = k")
    case True
    then show ?thesis
      using "1.prems" by (subst prevStateLoop.simps) (simp add: Let_def State_load_def)
  next
    case False
    then have lt: "i < k" using "1.prems" by simp
    then have here: "State_load s (timestampToId e ts i) = None"
      using "1.prems" by (simp add: State_load_def)
    have le: "i + 1 \<le> 30" using lt "1.prems" by simp
    have "prevStateLoop e s ts (i + 1) = State_load s (timestampToId e ts k)"
      using "1.IH" [OF refl refl refl] here le lt "1.prems" by simp
    then show ?thesis
      using here le by (subst prevStateLoop.simps) (simp add: Let_def)
  qed
qed

lemma getFloor_total:
  "toI32 (st_timestamp st) = Some ts \<Longrightarrow> \<exists>f. getFloorFromActiveListings e s st = Some f"
  by (simp add: getFloorFromActiveListings_def Let_def split: option.splits)

lemma getOrCreateState_id:
  "toI32 timestamp = Some ts \<Longrightarrow> getOrCreateState e s timestamp = Some state \<Longrightarrow>
   st_id state = timestampToId e ts 0"
  by (auto simp: getOrCreateState_def Let_def State_load_def split: option.splits if_splits)

lemma getOrCreateState_existing:
  "toI32 timestamp = Some ts \<Longrightarrow> State_load s (timestampToId e ts 0) = Some old \<Longrightarrow>
   getOrCreateState e s timestamp = Some old"
  by (simp add: getOrCreateState_def Let_def)

lemma getOrCreateState_fresh:
  assumes "toI32 timestamp = Some ts" "State_load s (timestampToId e ts 0) = None"
  shows "\<exists>fl. getOrCreateState e s timestamp =
           Some \<lparr>st_id = timestampToId e ts 0, st_timestamp = timestamp, st_floor = fl,
                 st_volume = 0, st_topBid = None, st_bids = 0, st_topSale = None, st_sales = 0,
                 st_owners = (case prevStateLoop e s ts 1 of Some p \<Rightarrow> st_owners p | None \<Rightarrow> 0),
                 st_activeListings =
                   (case prevStateLoop e s ts 1 of Some p \<Rightarrow> st_activeListings p | None \<Rightarrow> []),
                 st_listings = 0, st_delistings = 0, st_usd = None\<rparr>"
  using assms
  by (auto simp: getOrCreateState_def Let_def getFloorFromActiveListings_def
           split: option.splits)

lemma getOrCreateState_total:
  assumes "toI32 timestamp = Some ts"
  shows "\<exists>state. getOrCreateState e s timestamp = Some state"
proof (cases "State_load s (timestampToId e ts 0)")
  case None
  from getOrCreateState_fresh [OF assms None] show ?thesis by blast
next
  case (Some old)
  from getOrCreateState_existing [OF assms Some] show ?thesis by blast
qed

subsection \<open>Accounts and ownership\<close>

lemmas store_ops =
  Account_save_def Punk_save_def Listing_save_def Bid_save_def Event_save_def State_save_def
  Transfer_save_def Listing_remove_def Bid_remove_def

lemmas store_loads =
  Account_load_def Punk_load_def Listing_load_def Bid_load_def Event_load_def State_load_def
  Transfer_load_def

lemma fst_getOrCreateAccount [simp]:
  "fst (getOrCreateAccount s i) = \<lparr>acc_id = i, acc_punks = heldPunks s i\<rparr>"
  by (cases "accounts s i")
     (simp_all add: getOrCreateAccount_def heldPunks_def Account_load_def Let_def)

lemma snd_getOrCreateAccount [simp]:
  "states (snd (getOrCreateAccount s i)) = states s"
  "listings (snd (getOrCreateAccount s i)) = listings s"
  "bids (snd (getOrCreateAccount s i)) = bids s"
  "events (snd (getOrCreateAccount s i)) = events s"
  "punks (snd (getOrCreateAccount s i)) = punks s"
  "transfers (snd (getOrCreateAccount s i)) = transfers s"
  by (simp_all add: getOrCreateAccount_def Account_load_def Account_save_def Let_def
        split: option.splits)

lemma heldPunks_getOrCreateAccount [simp]:
  "heldPunks (snd (getOrCreateAccount s i)) a = heldPunks s a"
  by (simp add: getOrCreateAccount_def heldPunks_def Account_load_def Account_save_def Let_def
        split: option.splits)

lemma setPunkNoLongerForSale_proj [simp]:
  "listings (setPunkNoLongerForSale s i removeBid) = (listings s)(i := None)"
  "bids (setPunkNoLongerForSale s i removeBid) = (if removeBid then (bids s)(i := None) else bids s)"
  "states (setPunkNoLongerForSale s i removeBid) = states s"
  "events (setPunkNoLongerForSale s i removeBid) = events s"
  "accounts (setPunkNoLongerForSale s i removeBid) = accounts s"
  "punks (setPunkNoLongerForSale s i removeBid) = punks s"
  "transfers (setPunkNoLongerForSale s i removeBid) = transfers s"
  by (auto simp: setPunkNoLongerForSale_def store_loads store_ops Let_def split: option.splits)

lemma heldPunks_setPunkNoLongerForSale [simp]:
  "heldPunks (setPunkNoLongerForSale s i removeBid) a = heldPunks s a"
  by (simp add: heldPunks_def Account_load_def)

lemma getOrCreateState_Some_toI32:
  "getOrCreateState e s timestamp = Some state \<Longrightarrow> \<exists>ts. toI32 timestamp = Some ts"
  by (simp add: getOrCreateState_def split: option.splits)

lemma getOrCreateState_saved:
  "toI32 timestamp = Some ts \<Longrightarrow> states s (timestampToId e ts 0) = Some state \<Longrightarrow>
   st_id state = timestampToId e ts 0 \<Longrightarrow> getOrCreateState e s timestamp = Some state"
  by (simp add: getOrCreateState_def State_load_def Let_def)

text \<open>\<open>updateOwnership\<close>, in terms of the snapshot that \<open>getOrCreateState\<close> gives.\<close>

lemma updateOwnership_None:
  "getOrCreateState e s ts = None \<Longrightarrow> updateOwnership e s h ts pid to from = None"
  using getOrCreateState_cong [of "snd (getOrCreateAccount (snd (getOrCreateAccount s to)) from)" s e ts]
  by (simp add: updateOwnership_def Let_def split_beta)

lemma accounts_getOrCreateAccount:
  "accounts (snd (getOrCreateAccount s i)) =
     (case accounts s i of Some a \<Rightarrow> accounts s
      | None \<Rightarrow> (accounts s)(i \<mapsto> \<lparr>acc_id = i, acc_punks = []\<rparr>))"
  by (simp add: getOrCreateAccount_def Account_load_def Account_save_def Let_def
        split: option.splits)

lemma snd_getOrCreatePunk [simp]:
  "states (snd (getOrCreatePunk e s i)) = states s"
  "listings (snd (getOrCreatePunk e s i)) = listings s"
  "bids (snd (getOrCreatePunk e s i)) = bids s"
  "events (snd (getOrCreatePunk e s i)) = events s"
  "accounts (snd (getOrCreatePunk e s i)) = accounts s"
  "transfers (snd (getOrCreatePunk e s i)) = transfers s"
  by (simp_all add: getOrCreatePunk_def Punk_load_def Punk_save_def Let_def
        split: option.splits)

lemma fst_getOrCreatePunk [simp]: "punk_id (fst (getOrCreatePunk e s i)) = i"
  by (simp add: getOrCreatePunk_def Punk_load_def Let_def split: option.splits)

lemma heldPunks_cong: "accounts s = accounts s' \<Longrightarrow> heldPunks s a = heldPunks s' a"
  by (simp add: heldPunks_def Account_load_def)

lemma heldPunks_Account_save:
  "heldPunks (Account_save acc s) a = (if a = acc_id acc then acc_punks acc else heldPunks s a)"
  by (simp add: heldPunks_def Account_load_def Account_save_def)

lemma updateOwnership_Some:
  assumes "getOrCreateState e s ts = Some state"
  shows "\<exists>s'. updateOwnership e s h ts pid to from = Some s'
           \<and> states s' = (states s)(st_id state \<mapsto>
                state\<lparr>st_owners := st_owners state
                        - (if length (heldPunks s from) = 1 then 1 else 0)
                        + (if length (heldPunks s to) = 0 then 1 else 0)\<rparr>)
           \<and> listings s' = listings s \<and> bids s' = bids s \<and> events s' = events s
           \<and> transfers s' = transfers s
           \<and> heldPunks s' to = heldPunks s to @ [pid]
           \<and> (from \<noteq> to \<longrightarrow> heldPunks s' from = filter (\<lambda>n. n \<noteq> pid) (heldPunks s from))
           \<and> (\<forall>a. a \<noteq> to \<and> a \<noteq> from \<longrightarrow> heldPunks s' a = heldPunks s a)
           \<and> map_option punk_owner (punks s' pid) = Some to"
proof -
  define s2 where "s2 = snd (getOrCreateAccount (snd (getOrCreateAccount s to)) from)"
  define st where "st = state\<lparr>st_owners := st_owners state
                        - (if length (heldPunks s from) = 1 then 1 else 0)
                        + (if length (heldPunks s to) = 0 then 1 else 0)\<rparr>"
  define s5 where "s5 = Account_save \<lparr>acc_id = to, acc_punks = heldPunks s to @ [pid]\<rparr>
              (Account_save \<lparr>acc_id = from, acc_punks = filter (\<lambda>n. n \<noteq> pid) (heldPunks s from)\<rparr>
                (State_save st s2))"
  define s' where "s' = Punk_save (fst (getOrCreatePunk e s5 pid)\<lparr>punk_owner := to\<rparr>)
               (snd (getOrCreatePunk e s5 pid))"
  have g: "getOrCreateState e s2 ts = Some state"
    using getOrCreateState_cong [of s2 s e ts] assms by (simp add: s2_def)
  have eq: "updateOwnership e s h ts pid to from = Some s'"
    unfolding updateOwnership_def Let_def split_beta
    using g by (simp add: s'_def s5_def st_def s2_def)
  have s2: "states s2 = states s" "listings s2 = listings s" "bids s2 = bids s"
    "events s2 = events s" "transfers s2 = transfers s" "\<And>a. heldPunks s2 a = heldPunks s a"
    by (simp_all add: s2_def)
  have st: "states s' = (states s)(st_id state \<mapsto> st)"
    by (simp add: s'_def s5_def store_ops s2) (simp add: st_def)
  have other: "listings s' = listings s" "bids s' = bids s" "events s' = events s"
    "transfers s' = transfers s"
    by (simp_all add: s'_def s5_def store_ops s2)
  have acc: "accounts s' = accounts s5"
    by (simp add: s'_def Punk_save_def)
  have h1: "heldPunks s' to = heldPunks s to @ [pid]"
    by (simp add: heldPunks_cong [OF acc]) (simp add: s5_def heldPunks_Account_save)
  have h2: "heldPunks s' from = filter (\<lambda>n. n \<noteq> pid) (heldPunks s from)" if "from \<noteq> to"
    using that by (simp add: heldPunks_cong [OF acc]) (simp add: s5_def heldPunks_Account_save)
  have h3: "heldPunks s' a = heldPunks s a" if "a \<noteq> to \<and> a \<noteq> from" for a
  proof -
    have "heldPunks s' a = heldPunks (State_save st s2) a"
      using that by (simp add: heldPunks_cong [OF acc]) (simp add: s5_def heldPunks_Account_save)
    also have "\<dots> = heldPunks s2 a"
      by (rule heldPunks_cong) (simp add: State_save_def)
    finally show ?thesis by (simp add: s2)
  qed
  have ow: "map_option punk_owner (punks s' pid) = Some to"
    by (simp add: s'_def Punk_save_def)
  show ?thesis
    using eq st other h1 h2 h3 ow unfolding st_def by blast
qed

subsection \<open>The handlers\<close>

lemma loaded_ids [simp]:
  "(case Punk_load s i of Some punk \<Rightarrow> punk_id punk | None \<Rightarrow> i) = i"
  "(case Listing_load s i of Some listing \<Rightarrow> ls_id listing | None \<Rightarrow> i) = i"
  "(case Bid_load s i of Some bid \<Rightarrow> bid_id bid | None \<Rightarrow> i) = i"
  by (simp_all add: store_loads split: option.splits)

lemma getFloor_state_cong:
  "st_timestamp st = st_timestamp st' \<Longrightarrow> st_activeListings st = st_activeListings st' \<Longrightarrow>
   getFloorFromActiveListings e s st = getFloorFromActiveListings e s st'"
  by (simp add: getFloorFromActiveListings_def Let_def split: option.splits)

lemma getFloor_positiveValues:
  assumes "toI32 (st_timestamp state) = Some ts"
  shows "getFloorFromActiveListings e s state =
           Some (if length (st_activeListings state) < 5
                 then (case states s (timestampToId e ts 1) of None \<Rightarrow> 0 | Some p \<Rightarrow> st_floor p)
                 else if positiveValues s (st_activeListings state) = [] then 0
                 else Min (set (positiveValues s (st_activeListings state))))"
  using assms
  by (simp add: getFloorFromActiveListings_def Let_def State_load_def floorLoop_min minOpt_def
        split: option.splits)

lemma handlePunkOffered_result:
  assumes "getOrCreateState e
             (Listing_save (offeredListing e event punkIndex minValue toAddress) s)
             (block_timestamp event) = Some state"
  shows "\<exists>s'. handlePunkOffered e s event punkIndex minValue toAddress = Some s'
           \<and> listings s' = (listings s)(bigIntToString punkIndex \<mapsto>
                offeredListing e event punkIndex minValue toAddress)
           \<and> states s' = (states s)(st_id state \<mapsto>
                state\<lparr>st_listings := st_listings state + 1,
                       st_activeListings := st_activeListings state @ [bigIntToString punkIndex],
                       st_floor := (if toAddress \<noteq> ZERO_ADDRESS e \<and> minValue \<noteq> 0
                                       \<and> minValue < st_floor state
                                    then minValue else st_floor state),
                       st_usd := Some (USDValue e (block_timestamp event) (block_number event))\<rparr>)
           \<and> events s' = (events s)(getGlobalId event \<mapsto>
                mkEvent e event ''Offered'' punkIndex (transaction_from event) toAddress minValue)"
proof -
  have g: "getOrCreateState e S (block_timestamp event) = Some state"
    if "states S = states s"
       "listings S = (listings s)(bigIntToString punkIndex \<mapsto>
          offeredListing e event punkIndex minValue toAddress)" for S
    using getOrCreateState_cong [of S
        "Listing_save (offeredListing e event punkIndex minValue toAddress) s" e
        "block_timestamp event"] that assms
    by (simp add: Listing_save_def offeredListing_def)
  show ?thesis
    unfolding handlePunkOffered_def Let_def split_beta
    apply (subst g)
      apply (simp add: store_ops)
     apply (simp add: store_ops offeredListing_def)
    apply (simp add: store_ops offeredListing_def mkEvent_def)
    done
qed

lemma setPunkNoLongerForSale_eq:
  "setPunkNoLongerForSale s i removeBid =
     (if removeBid then Bid_remove i (Listing_remove i s) else Listing_remove i s)"
  by (cases s)
     (auto simp: setPunkNoLongerForSale_def store_loads store_ops Let_def split: option.splits)

lemma filter_if_member:
  "(if i \<in> set xs then filter (\<lambda>j. j \<noteq> i) xs else xs) = filter (\<lambda>j. j \<noteq> i) xs"
  by (induction xs) auto

lemma handlePunkBidEntered_result:
  assumes "getOrCreateState e s (block_timestamp event) = Some state"
  shows "\<exists>s'. handlePunkBidEntered e s event punkIndex value fromAddress = Some s'
           \<and> states s' = (states s)(st_id state \<mapsto>
                state\<lparr>st_topBid := considerTop (st_topBid state) (events s) (getGlobalId event) value,
                       st_usd := Some (USDValue e (block_timestamp event) (block_number event)),
                       st_bids := st_bids state + 1\<rparr>)
           \<and> events s' = (events s)(getGlobalId event \<mapsto>
                mkEvent e event ''BidEntered'' punkIndex fromAddress (ZERO_ADDRESS e) value)
           \<and> map_option bid_value (bids s' (bigIntToString punkIndex)) = Some value
           \<and> listings s' = listings s"
proof -
  have g: "getOrCreateState e S (block_timestamp event) = Some state"
    if "states S = states s" "listings S = listings s" for S
    using getOrCreateState_cong [of S s e "block_timestamp event"] that assms by simp
  show ?thesis
    unfolding handlePunkBidEntered_def Let_def split_beta
    apply (subst g)
      apply (simp add: store_ops)
     apply (simp add: store_ops)
    apply (simp add: store_ops mkEvent_def loadPrevBidEvent_def Event_load_def considerTop_def
             split: option.splits)
    apply (auto simp: fun_upd_same)
    done
qed

lemma handlePunkNoLongerForSale_result:
  assumes "getOrCreateState e (Listing_remove (bigIntToString punkIndex) s)
             (block_timestamp event) = Some state"
    and "toI32 (st_timestamp state) = Some ts"
  shows "\<exists>s' newFloor. handlePunkNoLongerForSale e s event punkIndex = Some s'
           \<and> listings s' = (listings s)(bigIntToString punkIndex := None)
           \<and> getFloorFromActiveListings e (Listing_remove (bigIntToString punkIndex) s)
                (state\<lparr>st_activeListings :=
                   filter (\<lambda>i. i \<noteq> bigIntToString punkIndex) (st_activeListings state)\<rparr>)
                = Some newFloor
           \<and> states s' = (states s)(st_id state \<mapsto>
                state\<lparr>st_delistings := st_delistings state
                         + (if transfers s (transaction_hash event) = None then 1 else 0),
                       st_activeListings :=
                         filter (\<lambda>i. i \<noteq> bigIntToString punkIndex) (st_activeListings state),
                       st_floor := newFloor,
                       st_usd := Some (USDValue e (block_timestamp event) (block_number event))\<rparr>)
           \<and> events s' =
                (if transfers s (transaction_hash event) = None
                 then (events s)(getGlobalId event \<mapsto>
                        mkEvent e event ''OfferWithdrawn'' punkIndex (ZERO_ADDRESS e)
                          (ZERO_ADDRESS e) 0)
                 else events s)"
proof -
  let ?pid = "bigIntToString punkIndex"
  let ?st = "state\<lparr>st_activeListings := filter (\<lambda>i. i \<noteq> ?pid) (st_activeListings state)\<rparr>"
  from getFloor_total [of ?st ts e "Listing_remove ?pid s"] assms(2)
  obtain newFloor where
    nf: "getFloorFromActiveListings e (Listing_remove ?pid s) ?st = Some newFloor"
    by auto
  have g: "getOrCreateState e S (block_timestamp event) = Some state"
    if "states S = states s" "listings S = (listings s)(?pid := None)" for S
    using getOrCreateState_cong [of S "Listing_remove ?pid s" e "block_timestamp event"]
      that assms(1)
    by (simp add: Listing_remove_def)
  have f: "getFloorFromActiveListings e S st = Some newFloor"
    if "states S = states s" "listings S = (listings s)(?pid := None)"
       "st_timestamp st = st_timestamp state"
       "st_activeListings st = filter (\<lambda>i. i \<noteq> ?pid) (st_activeListings state)" for S st
    using getFloor_cong [of S "Listing_remove ?pid s" e st]
      getFloor_state_cong [of st ?st e "Listing_remove ?pid s"] that nf
    by (simp add: Listing_remove_def)
  let ?usd = "Some (USDValue e (block_timestamp event) (block_number event))"
  show ?thesis
  proof (cases "transfers s (transaction_hash event)")
    case None
    let ?s2 = "Event_save (mkEvent e event ''OfferWithdrawn'' punkIndex (ZERO_ADDRESS e)
                 (ZERO_ADDRESS e) 0) (setPunkNoLongerForSale s ?pid False)"
    let ?s' = "State_save (state\<lparr>st_delistings := st_delistings state + 1,
                 st_activeListings := filter (\<lambda>i. i \<noteq> ?pid) (st_activeListings state),
                 st_floor := newFloor, st_usd := ?usd\<rparr>) ?s2"
    have "handlePunkNoLongerForSale e s event punkIndex = Some ?s'"
      unfolding handlePunkNoLongerForSale_def Let_def split_beta filter_if_member
      by (simp add: g f None Transfer_load_def Event_save_def mkEvent_def)
    then show ?thesis
      using nf None by (simp add: store_ops mkEvent_def)
  next
    case (Some transfer)
    let ?s' = "State_save (state\<lparr>
                 st_activeListings := filter (\<lambda>i. i \<noteq> ?pid) (st_activeListings state),
                 st_floor := newFloor, st_usd := ?usd\<rparr>) (setPunkNoLongerForSale s ?pid False)"
    have "handlePunkNoLongerForSale e s event punkIndex = Some ?s'"
      unfolding handlePunkNoLongerForSale_def Let_def split_beta filter_if_member
      by (simp add: g f Some Transfer_load_def)
    then show ?thesis
      using nf Some by (simp add: store_ops)
  qed
qed

lemma handlePunkBought_cases:
  assumes "getOrCreateState e (Listing_remove (bigIntToString punkIndex) s)
             (block_timestamp event) = Some state"
    and "(bids s (bigIntToString punkIndex) = None
            \<and> resolvedValue e s punkIndex value toAddress = 0)
         \<or> toI32 (st_timestamp state) = Some ts"
  shows "\<exists>s' newFloor.
           handlePunkBought e s event punkIndex value fromAddress toAddress = Some s'
           \<and> listings s' = (listings s)(bigIntToString punkIndex := None)
           \<and> bids s' = (if closesBid e s punkIndex toAddress
                        then (bids s)(bigIntToString punkIndex := None) else bids s)
           \<and> heldPunks s' (resolvedBuyer e s punkIndex toAddress)
                = heldPunks s (resolvedBuyer e s punkIndex toAddress) @ [bigIntToString punkIndex]
           \<and> map_option punk_owner (punks s' (bigIntToString punkIndex))
                = Some (resolvedBuyer e s punkIndex toAddress)
           \<and> (if bids s (bigIntToString punkIndex) = None
                  \<and> resolvedValue e s punkIndex value toAddress = 0
               then events s' = events s
                 \<and> states s' = (states s)(st_id state \<mapsto>
                      state\<lparr>st_owners := st_owners state
                          - (if length (heldPunks s fromAddress) = 1 then 1 else 0)
                          + (if length (heldPunks s (resolvedBuyer e s punkIndex toAddress)) = 0
                             then 1 else 0)\<rparr>)
               else events s' = (events s)(getGlobalId event \<mapsto>
                      mkEvent e event ''Sale'' punkIndex fromAddress
                        (resolvedBuyer e s punkIndex toAddress)
                        (resolvedValue e s punkIndex value toAddress))
                 \<and> states s' = (states s)(st_id state \<mapsto>
                      state\<lparr>st_owners := st_owners state
                          - (if length (heldPunks s fromAddress) = 1 then 1 else 0)
                          + (if length (heldPunks s (resolvedBuyer e s punkIndex toAddress)) = 0
                             then 1 else 0),
                        st_topSale := considerTop (st_topSale state) (events s)
                          (getGlobalId event) (resolvedValue e s punkIndex value toAddress),
                        st_activeListings :=
                          filter (\<lambda>i. i \<noteq> bigIntToString punkIndex) (st_activeListings state),
                        st_floor := newFloor,
                        st_sales := st_sales state + 1,
                        st_volume := st_volume state + resolvedValue e s punkIndex value toAddress,
                        st_usd := Some (USDValue e (block_timestamp event)
                                          (block_number event))\<rparr>))"
proof -
  let ?pid = "bigIntToString punkIndex"
  let ?buyer = "resolvedBuyer e s punkIndex toAddress"
  let ?v = "resolvedValue e s punkIndex value toAddress"
  let ?evntId = "getGlobalId event"
  define R where "R =
    (let punkBoughtTokenId = bigIntToString punkIndex;
          (fromAccount, s1) = getOrCreateAccount s fromAddress;
          (toAccount, s2) = getOrCreateAccount s1 toAddress;
          bid = Bid_load s2 punkBoughtTokenId
     in (if acc_id toAccount = ZERO_ADDRESS e then
               (case bid of
                  Some b \<Rightarrow>
                    (let (bidder, s') = getOrCreateAccount s2 (bid_fromAccount b)
                     in (bidder, bid_value b, setPunkNoLongerForSale s' punkBoughtTokenId True))
                | None \<Rightarrow> (toAccount, value, setPunkNoLongerForSale s2 punkBoughtTokenId True))
             else if (case bid of
                        Some b \<Rightarrow> toLowerCase (bid_fromAccount b) = toLowerCase (acc_id toAccount)
                      | None \<Rightarrow> False) then
               (toAccount, value, setPunkNoLongerForSale s2 punkBoughtTokenId True)
             else (toAccount, value, setPunkNoLongerForSale s2 punkBoughtTokenId False)))"
  define S3 where "S3 = snd (snd R)"
  have R1: "fst R = \<lparr>acc_id = ?buyer, acc_punks = heldPunks s ?buyer\<rparr>"
    unfolding R_def Let_def split_beta
    by (simp add: resolvedBuyer_def Bid_load_def split: option.splits)
  have R2: "fst (snd R) = ?v"
    unfolding R_def Let_def split_beta
    by (simp add: resolvedValue_def Bid_load_def split: option.splits)
  have R3: "states S3 = states s" "listings S3 = (listings s)(?pid := None)"
    "events S3 = events s"
    "bids S3 = (if closesBid e s punkIndex toAddress then (bids s)(?pid := None) else bids s)"
    unfolding S3_def R_def Let_def split_beta
    by (simp_all add: closesBid_def Bid_load_def split: option.splits)
  have R4: "heldPunks S3 a = heldPunks s a" for a
    unfolding S3_def R_def Let_def split_beta
    by (simp add: Bid_load_def split: option.splits)
  have g3: "getOrCreateState e S3 (block_timestamp event) = Some state"
    using getOrCreateState_cong [of S3 "Listing_remove ?pid s" e "block_timestamp event"]
      assms(1) R3
    by (simp add: Listing_remove_def)
  define state1 where "state1 = state\<lparr>st_owners := st_owners state
                          - (if length (heldPunks s fromAddress) = 1 then 1 else 0)
                          + (if length (heldPunks s ?buyer) = 0 then 1 else 0)\<rparr>"
  from updateOwnership_Some [OF g3, of "transaction_hash event" ?pid ?buyer fromAddress]
  obtain s4 where
    u: "updateOwnership e S3 (transaction_hash event) (block_timestamp event) ?pid ?buyer
          fromAddress = Some s4"
    and s4: "states s4 = (states s)(st_id state \<mapsto> state1)"
      "listings s4 = (listings s)(?pid := None)" "events s4 = events s"
      "bids s4 = (if closesBid e s punkIndex toAddress then (bids s)(?pid := None) else bids s)"
    and held: "heldPunks s4 ?buyer = heldPunks s ?buyer @ [?pid]"
    and owner: "map_option punk_owner (punks s4 ?pid) = Some ?buyer"
    unfolding state1_def R3 R4 by blast
  from getOrCreateState_Some_toI32 [OF assms(1)] obtain t where
    t: "toI32 (block_timestamp event) = Some t"
    by blast
  have sid: "st_id state = timestampToId e t 0"
    using getOrCreateState_id [OF t assms(1)] .
  have g4: "getOrCreateState e S (block_timestamp event) = Some state1"
    if "states S = states s4" for S
    using t by (rule getOrCreateState_saved) (simp_all add: that s4 sid [symmetric] state1_def)
  have bid: "Bid_load (snd (getOrCreateAccount (snd (getOrCreateAccount s fromAddress)) toAddress)) ?pid
               = None \<longleftrightarrow> bids s ?pid = None"
    by (simp add: Bid_load_def)
  let ?usd = "Some (USDValue e (block_timestamp event) (block_number event))"
  show ?thesis
  proof (cases "bids s ?pid = None \<and> ?v = 0")
    case True
    have "handlePunkBought e s event punkIndex value fromAddress toAddress = Some s4"
      unfolding handlePunkBought_def Let_def split_beta
      unfolding R_def [unfolded Let_def split_beta, symmetric]
      using True by (simp add: R1 R2 S3_def [symmetric] u bid)
    then show ?thesis
      using True s4 held owner by (simp add: state1_def)
  next
    case False
    with assms(2) have ts: "toI32 (st_timestamp state) = Some ts"
      by blast
    let ?st = "state\<lparr>st_activeListings := filter (\<lambda>i. i \<noteq> ?pid) (st_activeListings state)\<rparr>"
    from getFloor_total [of ?st ts e s4] ts
    obtain newFloor where
      nf: "getFloorFromActiveListings e s4 ?st = Some newFloor"
      by auto
    have f: "getFloorFromActiveListings e S st = Some newFloor"
      if "states S = states s4" "listings S = listings s4"
         "st_timestamp st = st_timestamp state"
         "st_activeListings st = filter (\<lambda>i. i \<noteq> ?pid) (st_activeListings state)" for S st
      using getFloor_cong [of S s4 e st] getFloor_state_cong [of st ?st e s4] that nf
      by simp
    let ?s5 = "Event_save (mkEvent e event ''Sale'' punkIndex fromAddress ?buyer ?v) s4"
    let ?final = "state1\<lparr>st_topSale := considerTop (st_topSale state) (events s) ?evntId ?v,
                        st_activeListings := filter (\<lambda>i. i \<noteq> ?pid) (st_activeListings state),
                        st_floor := newFloor, st_sales := st_sales state + 1,
                        st_volume := st_volume state + ?v, st_usd := ?usd\<rparr>"
    have top: "(case loadPrevSaleEvent ?s5 (st_topSale state1) of
                  Some p \<Rightarrow> if ev_value p > 0
                            then (if ?v > ev_value p then state1\<lparr>st_topSale := Some ?evntId\<rparr>
                                  else state1)
                            else state1\<lparr>st_topSale := Some ?evntId\<rparr>
                | None \<Rightarrow> state1\<lparr>st_topSale := Some ?evntId\<rparr>)
               = state1\<lparr>st_topSale := considerTop (st_topSale state) (events s) ?evntId ?v\<rparr>"
      by (auto simp: loadPrevSaleEvent_def Event_load_def Event_save_def mkEvent_def s4
            considerTop_def state1_def split: option.splits)
    have ids: "acc_id (fst R) = ?buyer" "acc_id (fst (getOrCreateAccount s fromAddress)) = fromAddress"
      by (simp_all add: R1)
    have "handlePunkBought e s event punkIndex value fromAddress toAddress
            = Some (State_save ?final ?s5)"
      unfolding handlePunkBought_def Let_def split_beta filter_if_member
      unfolding R_def [unfolded Let_def split_beta, symmetric]
      apply (unfold ids R2 S3_def [symmetric] u option.case bid mkEvent_def [symmetric])
      apply (subst if_not_P)
       apply (rule False)
      apply (subst g4)
       apply (simp add: Event_save_def)
      apply (unfold option.case top)
      apply (subst f)
          apply (simp add: Event_save_def)
         apply (simp add: Event_save_def)
        apply (simp add: state1_def)
       apply (simp add: state1_def)
      apply (simp add: state1_def)
      done
    then have eq: "handlePunkBought e s event punkIndex value fromAddress toAddress
            = Some (State_save ?final ?s5)" .
    have p1: "listings (State_save ?final ?s5) = (listings s)(?pid := None)"
      "bids (State_save ?final ?s5)
         = (if closesBid e s punkIndex toAddress then (bids s)(?pid := None) else bids s)"
      by (simp_all add: store_ops s4)
    have p2: "heldPunks (State_save ?final ?s5) ?buyer = heldPunks s ?buyer @ [?pid]"
      using held heldPunks_cong [of "State_save ?final ?s5" s4 ?buyer] by (simp add: store_ops)
    have p3: "map_option punk_owner (punks (State_save ?final ?s5) ?pid) = Some ?buyer"
      using owner by (simp add: store_ops)
    have p4: "events (State_save ?final ?s5) = (events s)(?evntId \<mapsto>
                mkEvent e event ''Sale'' punkIndex fromAddress ?buyer ?v)"
      by (simp add: store_ops s4) (simp add: mkEvent_def)
    have p5: "states (State_save ?final ?s5) = (states s)(st_id state \<mapsto> ?final)"
      by (simp add: store_ops s4) (simp add: state1_def)
    show ?thesis
      apply (rule exI [of _ "State_save ?final ?s5"])
      apply (rule exI [of _ newFloor])
      apply (simp only: eq p1 p2 p3 p4 p5 False if_False simp_thms)
      apply (simp add: state1_def)
      done
  qed
qed

lemma considerTop_cases:
  "(topId = None \<or> (\<exists>t. topId = Some t \<and> (evs t = None \<or> (\<exists>p. evs t = Some p \<and> \<not> 0 < ev_value p)))
      \<longrightarrow> considerTop topId evs c v = Some c)
   \<and> (\<forall>t p. topId = Some t \<and> evs t = Some p \<and> 0 < ev_value p
      \<longrightarrow> considerTop topId evs c v = (if ev_value p < v then Some c else Some t))"
  by (auto simp: considerTop_def)

subsection \<open>The example stores\<close>

lemma env0_bucket:
  "timestampToId env0 172800 0 = ''2''" "toI32 172800 = Some 172800"
  by (simp_all add: env0_def bigIntToString_def natToString.simps toI32_def)

lemma oneOwner_state:
  "getOrCreateState env0 oneOwner 172800 = Some (mkState ''2'' 172800 0 1 [])"
  by (rule getOrCreateState_existing [where ts = 172800])
     (simp_all add: env0_bucket State_load_def oneOwner_def emptyStore_def mkState_def)

lemma dupOwner_state:
  "getOrCreateState env0 dupOwner 172800 = Some (mkState ''2'' 172800 0 1 [])"
  by (rule getOrCreateState_existing [where ts = 172800])
     (simp_all add: env0_bucket State_load_def dupOwner_def emptyStore_def mkState_def)

lemma floorStore_state:
  "getOrCreateState env0 (Listing_save l floorStore) 172800 = Some (mkState ''2'' 172800 100 0 [])"
  by (rule getOrCreateState_existing [where ts = 172800])
     (simp_all add: env0_bucket State_load_def floorStore_def emptyStore_def mkState_def
        Listing_save_def)

lemma fourTimesListed_state:
  "getOrCreateState env0 (Listing_save l fourTimesListed) 172800
     = Some (mkState ''2'' 172800 0 0 [''7'', ''7'', ''7'', ''7''])"
  by (rule getOrCreateState_existing [where ts = 172800])
     (simp_all add: env0_bucket State_load_def fourTimesListed_def emptyStore_def mkState_def
        Listing_save_def)

lemma bigIntToString_7: "bigIntToString 7 = ''7''"
  by (simp add: bigIntToString_def natToString.simps)

lemma topStore_state:
  "states S = states topStore \<Longrightarrow>
   getOrCreateState env0 S 172800 = Some topSnapshot"
  by (rule getOrCreateState_existing [where ts = 172800])
     (simp_all add: env0_bucket State_load_def topStore_def emptyStore_def mkState_def
        topSnapshot_def)

lemma offerEvent_id: "getGlobalId offerEvent = ''0xh-3''"
  by (simp add: getGlobalId_def offerEvent_def bigIntToString_def natToString.simps)

lemma bidStore_state:
  "states S = states bidStore \<Longrightarrow>
   getOrCreateState env0 S 172800 = Some (mkState ''2'' 172800 0 1 [''3''])"
  by (rule getOrCreateState_existing [where ts = 172800])
     (simp_all add: env0_bucket State_load_def bidStore_def emptyStore_def mkState_def)

lemma listedStore_state:
  "states S = states listedStore \<Longrightarrow>
   getOrCreateState env0 S 172800 = Some ((mkState ''2'' 172800 0 1 [''7''])\<lparr>st_listings := 1\<rparr>)"
  by (rule getOrCreateState_existing [where ts = 172800])
     (simp_all add: env0_bucket State_load_def listedStore_def emptyStore_def mkState_def)

lemma bigIntToString_3: "bigIntToString 3 = ''3''"
  by (simp add: bigIntToString_def natToString.simps)

lemma bigIntToString_9: "bigIntToString 9 = ''9''"
  by (simp add: bigIntToString_def natToString.simps)

section \<open>The claims\<close>

subsection \<open>C1: the floor of a snapshot\<close>

text \<open>
  Claim C1. For a snapshot whose timestamp \<open>toI32\<close> accepts, \<open>getFloorFromActiveListings\<close>
  returns the floor of the snapshot exactly one bucket back (zero when the store has no such
  snapshot) whenever the snapshot's active-listing collection has fewer than 5 entries;
  otherwise it returns the least strictly positive value among the listings that the
  collection refers to and that exist, and zero when there is none. In particular the
  result is the previous bucket's floor for exactly 4 entries, whatever the listings'
  values, and it is 50 for 5 entries whose listings have the values 100, 0, 50, 200, 80.
\<close>

theorem getFloorFromActiveListings_spec:
  assumes "toI32 (st_timestamp state) = Some ts"
  shows "getFloorFromActiveListings e s state =
           Some (if length (st_activeListings state) < 5
                 then (case states s (timestampToId e ts 1) of None \<Rightarrow> 0 | Some p \<Rightarrow> st_floor p)
                 else if {v. \<exists>i l. i \<in> set (st_activeListings state) \<and> listings s i = Some l
                                   \<and> v = ls_value l \<and> 0 < v} = {} then 0
                 else Min {v. \<exists>i l. i \<in> set (st_activeListings state) \<and> listings s i = Some l
                                   \<and> v = ls_value l \<and> 0 < v})
         \<and> (length (st_activeListings state) = 4 \<longrightarrow>
              getFloorFromActiveListings e s state =
                Some (case states s (timestampToId e ts 1) of None \<Rightarrow> 0 | Some p \<Rightarrow> st_floor p))
         \<and> (map (\<lambda>i. map_option ls_value (listings s i)) (st_activeListings state)
               = [Some 100, Some 0, Some 50, Some 200, Some 80] \<longrightarrow>
              getFloorFromActiveListings e s state = Some 50)"
proof -
  let ?ids = "st_activeListings state"
  have gen: "getFloorFromActiveListings e s state =
           Some (if length ?ids < 5
                 then (case states s (timestampToId e ts 1) of None \<Rightarrow> 0 | Some p \<Rightarrow> st_floor p)
                 else if set (positiveValues s ?ids) = {} then 0
                 else Min (set (positiveValues s ?ids)))"
    using getFloor_positiveValues [OF assms, of e s] by simp
  have four: "length ?ids = 4 \<longrightarrow> getFloorFromActiveListings e s state =
                Some (case states s (timestampToId e ts 1) of None \<Rightarrow> 0 | Some p \<Rightarrow> st_floor p)"
    using gen by simp
  have five: "getFloorFromActiveListings e s state = Some 50"
    if h: "map (\<lambda>i. map_option ls_value (listings s i)) ?ids
             = [Some 100, Some 0, Some 50, Some 200, Some 80]"
  proof -
    have len: "length ?ids = 5"
      using arg_cong [OF h, of length] by simp
    have "positiveValues s ?ids = [100, 50, 200, 80]"
      unfolding positiveValues_def List.map_filter_def
      using arg_cong [OF h, of "\<lambda>xs. filter (\<lambda>v. 0 < v) (map the (filter (\<lambda>x. x \<noteq> None) xs))"]
      by (simp add: filter_map comp_def)
    then show ?thesis using gen len by simp
  qed
  show ?thesis
    using gen four five by (simp only: set_positiveValues) blast
qed

text \<open>The theorem at five listings with the values 100, 0, 50, 200 and 80.\<close>

theorem getFloorFromActiveListings_spec_witness:
  "toI32 (st_timestamp (mkState ''2'' 172800 7 0 [''1'', ''2'', ''3'', ''4'', ''5''])) = Some 172800
   \<and> getFloorFromActiveListings env0 fiveListings
        (mkState ''2'' 172800 7 0 [''1'', ''2'', ''3'', ''4'', ''5'']) = Some 50"
proof -
  have h: "toI32 (st_timestamp (mkState ''2'' 172800 7 0 [''1'', ''2'', ''3'', ''4'', ''5'']))
             = Some 172800"
    by (simp add: toI32_def mkState_def)
  have v: "map (\<lambda>i. map_option ls_value (listings fiveListings i))
             (st_activeListings (mkState ''2'' 172800 7 0 [''1'', ''2'', ''3'', ''4'', ''5'']))
           = [Some 100, Some 0, Some 50, Some 200, Some 80]"
    by (simp add: fiveListings_def emptyStore_def mkListing_def mkState_def)
  have "getFloorFromActiveListings env0 fiveListings
          (mkState ''2'' 172800 7 0 [''1'', ''2'', ''3'', ''4'', ''5'']) = Some 50"
    using conjunct2 [OF conjunct2 [OF getFloorFromActiveListings_spec [OF h, of env0 fiveListings]]] v
    by (rule mp)
  with h show ?thesis by (rule conjI)
qed

subsection \<open>C2: creating the snapshot of a bucket\<close>

text \<open>
  Claim C2. For a timestamp that \<open>toI32\<close> accepts: when the store has the snapshot of the
  timestamp's bucket, \<open>getOrCreateState\<close> returns it as it is. When it has not,
  \<open>getOrCreateState\<close> returns a snapshot whose counters \<open>listings\<close>, \<open>delistings\<close>, \<open>bids\<close>,
  \<open>sales\<close> and \<open>volume\<close> are zero and whose owner count and active listings are those of the
  nearest snapshot among the 30 buckets before it (the one \<open>k\<close> buckets back, where the
  buckets \<open>1\<close> to \<open>k - 1\<close> back have none), or zero and empty when none of the 30 buckets
  has a snapshot.
\<close>

theorem getOrCreateState_spec:
  assumes "toI32 timestamp = Some ts"
  shows "(\<forall>old. State_load s (timestampToId e ts 0) = Some old \<longrightarrow>
            getOrCreateState e s timestamp = Some old)
       \<and> (State_load s (timestampToId e ts 0) = None \<longrightarrow>
            (\<exists>state. getOrCreateState e s timestamp = Some state
               \<and> st_listings state = 0 \<and> st_delistings state = 0 \<and> st_bids state = 0
               \<and> st_sales state = 0 \<and> st_volume state = 0
               \<and> (\<forall>k p. 1 \<le> k \<and> k \<le> 30 \<and> states s (timestampToId e ts k) = Some p
                      \<and> (\<forall>j. 1 \<le> j \<and> j < k \<longrightarrow> states s (timestampToId e ts j) = None)
                    \<longrightarrow> st_owners state = st_owners p
                        \<and> st_activeListings state = st_activeListings p)
               \<and> ((\<forall>j. 1 \<le> j \<and> j \<le> 30 \<longrightarrow> states s (timestampToId e ts j) = None)
                    \<longrightarrow> st_owners state = 0 \<and> st_activeListings state = [])))"
proof (intro conjI allI impI)
  fix old
  assume "State_load s (timestampToId e ts 0) = Some old"
  then show "getOrCreateState e s timestamp = Some old"
    using assms by (rule getOrCreateState_existing [rotated])
next
  assume none: "State_load s (timestampToId e ts 0) = None"
  from getOrCreateState_fresh [OF assms none] obtain fl where
    eq: "getOrCreateState e s timestamp =
           Some \<lparr>st_id = timestampToId e ts 0, st_timestamp = timestamp, st_floor = fl,
                 st_volume = 0, st_topBid = None, st_bids = 0, st_topSale = None, st_sales = 0,
                 st_owners = (case prevStateLoop e s ts 1 of Some p \<Rightarrow> st_owners p | None \<Rightarrow> 0),
                 st_activeListings =
                   (case prevStateLoop e s ts 1 of Some p \<Rightarrow> st_activeListings p | None \<Rightarrow> []),
                 st_listings = 0, st_delistings = 0, st_usd = None\<rparr>"
    by blast
  have near: "prevStateLoop e s ts 1 = State_load s (timestampToId e ts k)"
    if "1 \<le> k" "k \<le> 30" "states s (timestampToId e ts k) = Some p"
       "\<forall>j. 1 \<le> j \<and> j < k \<longrightarrow> states s (timestampToId e ts j) = None" for k p
    using that by (rule prevStateLoop_first)
  have far: "prevStateLoop e s ts 1 = None"
    if "\<forall>j. 1 \<le> j \<and> j \<le> 30 \<longrightarrow> states s (timestampToId e ts j) = None"
    using that by (intro prevStateLoop_none) simp_all
  show "\<exists>state. getOrCreateState e s timestamp = Some state
               \<and> st_listings state = 0 \<and> st_delistings state = 0 \<and> st_bids state = 0
               \<and> st_sales state = 0 \<and> st_volume state = 0
               \<and> (\<forall>k p. 1 \<le> k \<and> k \<le> 30 \<and> states s (timestampToId e ts k) = Some p
                      \<and> (\<forall>j. 1 \<le> j \<and> j < k \<longrightarrow> states s (timestampToId e ts j) = None)
                    \<longrightarrow> st_owners state = st_owners p
                        \<and> st_activeListings state = st_activeListings p)
               \<and> ((\<forall>j. 1 \<le> j \<and> j \<le> 30 \<longrightarrow> states s (timestampToId e ts j) = None)
                    \<longrightarrow> st_owners state = 0 \<and> st_activeListings state = [])"
    unfolding eq
    apply (intro exI conjI allI impI; (rule refl)?)
          apply simp_all
    using near far by (auto simp: State_load_def)
qed

text \<open>
  The theorem at a store with snapshots two and three buckets before a bucket that has
  none: the one found is the nearer one.
\<close>

theorem getOrCreateState_spec_witness:
  "toI32 345600 = Some 345600 \<and> State_load twoSnapshots (timestampToId env0 345600 0) = None
   \<and> (\<exists>state. getOrCreateState env0 twoSnapshots 345600 = Some state
         \<and> st_listings state = 0 \<and> st_delistings state = 0 \<and> st_bids state = 0
         \<and> st_sales state = 0 \<and> st_volume state = 0
         \<and> st_owners state = 12 \<and> st_activeListings state = [''7''])"
proof -
  have h: "toI32 345600 = Some 345600"
    by (simp add: toI32_def)
  have none: "State_load twoSnapshots (timestampToId env0 345600 0) = None"
    by (simp add: twoSnapshots_def emptyStore_def env0_def State_load_def bigIntToString_def
          natToString.simps)
  have p: "states twoSnapshots (timestampToId env0 345600 2)
             = Some (mkState ''2'' 172800 5 12 [''7''])"
    by (simp add: twoSnapshots_def emptyStore_def env0_def bigIntToString_def natToString.simps)
  have q: "\<forall>j. 1 \<le> j \<and> j < 2 \<longrightarrow> states twoSnapshots (timestampToId env0 345600 j) = None"
  proof (intro allI impI)
    fix j :: int
    assume "1 \<le> j \<and> j < 2"
    then have "j = 1" by simp
    then show "states twoSnapshots (timestampToId env0 345600 j) = None"
      by (simp add: twoSnapshots_def emptyStore_def env0_def bigIntToString_def
            natToString.simps)
  qed
  from conjunct2 [OF getOrCreateState_spec [OF h, of twoSnapshots env0]] none
  obtain state where
    st: "getOrCreateState env0 twoSnapshots 345600 = Some state"
      "st_listings state = 0" "st_delistings state = 0" "st_bids state = 0"
      "st_sales state = 0" "st_volume state = 0"
    and near: "\<forall>k p. 1 \<le> k \<and> k \<le> 30 \<and> states twoSnapshots (timestampToId env0 345600 k) = Some p
                  \<and> (\<forall>j. 1 \<le> j \<and> j < k \<longrightarrow>
                         states twoSnapshots (timestampToId env0 345600 j) = None)
                \<longrightarrow> st_owners state = st_owners p
                    \<and> st_activeListings state = st_activeListings p"
    by blast
  have "1 \<le> (2::int) \<and> (2::int) \<le> 30
      \<and> states twoSnapshots (timestampToId env0 345600 2) = Some (mkState ''2'' 172800 5 12 [''7''])
      \<and> (\<forall>j. 1 \<le> j \<and> j < 2 \<longrightarrow> states twoSnapshots (timestampToId env0 345600 j) = None)"
    using p q by (intro conjI; (assumption | simp))
  with near have "st_owners state = st_owners (mkState ''2'' 172800 5 12 [''7''])
      \<and> st_activeListings state = st_activeListings (mkState ''2'' 172800 5 12 [''7''])"
    by blast
  then have "st_owners state = 12 \<and> st_activeListings state = [''7'']"
    by (simp add: mkState_def)
  with h none st show ?thesis by blast
qed

subsection \<open>C3: the floor after an offer\<close>

text \<open>
  The guard of the fast path in \<open>handlePunkOffered\<close> is \<open>toAccount.id != ZERO_ADDRESS\<close>, the
  test that sets \<open>isPrivate\<close> two statements before it. So the saved snapshot's floor is the
  offer's value exactly when the offer is restricted to a buyer, its value is not zero and
  it is strictly below the floor; in every other case the floor stays.
\<close>

lemma handlePunkOffered_floor:
  assumes "getOrCreateState e
             (Listing_save (offeredListing e event punkIndex minValue toAddress) s)
             (block_timestamp event) = Some state"
  shows "\<exists>s' state'. handlePunkOffered e s event punkIndex minValue toAddress = Some s'
           \<and> states s' (st_id state) = Some state'
           \<and> st_floor state' = (if toAddress \<noteq> ZERO_ADDRESS e \<and> minValue \<noteq> 0
                                       \<and> minValue < st_floor state
                                    then minValue else st_floor state)"
  using handlePunkOffered_result [OF assms] by auto

text \<open>
  Claim C3: a public offer (restricted-buyer address zero) whose value is nonzero and
  strictly below the snapshot's floor sets the floor to that value, and a private offer
  does not. On the code the claim fails: at a floor of 100, \<open>handlePunkOffered\<close> on an offer
  of punk 7 for 50 to everyone (the zero address) leaves the floor at 100, and on the same
  offer to the address \<open>0xb\<close> alone it sets the floor to 50.
\<close>

theorem handlePunkOffered_public_offer_keeps_floor:
  "ZERO_ADDRESS env0 = ''0x0''
   \<and> map_option st_floor (states floorStore ''2'') = Some 100
   \<and> handlePunkOffered env0 floorStore offerEvent 7 50 ''0x0'' \<noteq> None
   \<and> map_option st_floor
        (states (the (handlePunkOffered env0 floorStore offerEvent 7 50 ''0x0'')) ''2'') = Some 100
   \<and> handlePunkOffered env0 floorStore offerEvent 7 50 ''0xb'' \<noteq> None
   \<and> map_option st_floor
        (states (the (handlePunkOffered env0 floorStore offerEvent 7 50 ''0xb'')) ''2'') = Some 50"
proof -
  have pub: "getOrCreateState env0
             (Listing_save (offeredListing env0 offerEvent 7 50 ''0x0'') floorStore)
             (block_timestamp offerEvent) = Some (mkState ''2'' 172800 100 0 [])"
    using floorStore_state by (simp add: offerEvent_def)
  have priv: "getOrCreateState env0
             (Listing_save (offeredListing env0 offerEvent 7 50 ''0xb'') floorStore)
             (block_timestamp offerEvent) = Some (mkState ''2'' 172800 100 0 [])"
    using floorStore_state by (simp add: offerEvent_def)
  have z: "ZERO_ADDRESS env0 = ''0x0''"
    by (simp add: env0_def)
  have f: "map_option st_floor (states floorStore ''2'') = Some 100"
    by (simp add: floorStore_def emptyStore_def mkState_def)
  from handlePunkOffered_result [OF pub] obtain s1 where
    s1: "handlePunkOffered env0 floorStore offerEvent 7 50 ''0x0'' = Some s1"
    "map_option st_floor (states s1 ''2'') = Some 100"
    by (auto simp: mkState_def z)
  from handlePunkOffered_result [OF priv] obtain s2 where
    s2: "handlePunkOffered env0 floorStore offerEvent 7 50 ''0xb'' = Some s2"
    "map_option st_floor (states s2 ''2'') = Some 50"
    by (auto simp: mkState_def z)
  from z f s1 s2 show ?thesis by simp
qed

subsection \<open>C4: the top bid and the top sale\<close>

text \<open>
  Claim C4. Whenever \<open>getOrCreateState\<close> gives a snapshot for the block's timestamp,
  \<open>handlePunkBidEntered\<close> returns and saves the snapshot with the top bid that the rule
  \<open>considerTop\<close> gives for the snapshot's top bid, the events of the store and the event of
  the bid; and for every sale that \<open>handlePunkBought\<close> records (the punk has a bid or the
  value resolved is not zero, and \<open>toI32\<close> accepts the snapshot's timestamp) the snapshot is
  saved with the top sale that the same rule gives for the value resolved. The rule: the
  candidate becomes the top when no top is referenced, or the event referenced does not
  exist or has a value that is not strictly positive; otherwise the candidate replaces the
  top if and only if its value is strictly greater, so a candidate of equal value never
  replaces it.
\<close>

theorem top_rank_rule:
  "(getOrCreateState e s (block_timestamp bidEvent) = Some state \<longrightarrow>
      (\<exists>s' state'.
          handlePunkBidEntered e s bidEvent bidPunk bidValue bidder = Some s'
          \<and> states s' (st_id state) = Some state'
          \<and> st_topBid state'
               = considerTop (st_topBid state) (events s) (getGlobalId bidEvent) bidValue))
   \<and> (getOrCreateState e (Listing_remove (bigIntToString punkIndex) s) (block_timestamp event)
         = Some state2
       \<and> toI32 (st_timestamp state2) = Some ts
       \<and> \<not> (bids s (bigIntToString punkIndex) = None
             \<and> resolvedValue e s punkIndex saleValue toAddress = 0) \<longrightarrow>
      (\<exists>s' state'.
          handlePunkBought e s event punkIndex saleValue fromAddress toAddress = Some s'
          \<and> states s' (st_id state2) = Some state'
          \<and> st_topSale state'
               = considerTop (st_topSale state2) (events s) (getGlobalId event)
                   (resolvedValue e s punkIndex saleValue toAddress)))
   \<and> (topId = None
       \<or> (\<exists>t. topId = Some t \<and> (evs t = None \<or> (\<exists>p. evs t = Some p \<and> \<not> 0 < ev_value p)))
      \<longrightarrow> considerTop topId evs candidateId candidateValue = Some candidateId)
   \<and> (\<forall>t p. topId = Some t \<and> evs t = Some p \<and> 0 < ev_value p
      \<longrightarrow> considerTop topId evs candidateId candidateValue
            = (if ev_value p < candidateValue then Some candidateId else Some t))"
proof (intro conjI impI)
  assume h: "getOrCreateState e s (block_timestamp bidEvent) = Some state"
  from handlePunkBidEntered_result [OF h, of bidPunk bidValue bidder]
  show "\<exists>s' state'.
          handlePunkBidEntered e s bidEvent bidPunk bidValue bidder = Some s'
          \<and> states s' (st_id state) = Some state'
          \<and> st_topBid state'
               = considerTop (st_topBid state) (events s) (getGlobalId bidEvent) bidValue"
    by auto
next
  assume h: "getOrCreateState e (Listing_remove (bigIntToString punkIndex) s)
               (block_timestamp event) = Some state2
       \<and> toI32 (st_timestamp state2) = Some ts
       \<and> \<not> (bids s (bigIntToString punkIndex) = None
             \<and> resolvedValue e s punkIndex saleValue toAddress = 0)"
  then have h1: "getOrCreateState e (Listing_remove (bigIntToString punkIndex) s)
               (block_timestamp event) = Some state2"
    and h2: "(bids s (bigIntToString punkIndex) = None
               \<and> resolvedValue e s punkIndex saleValue toAddress = 0)
             \<or> toI32 (st_timestamp state2) = Some ts"
    and h3: "\<not> (bids s (bigIntToString punkIndex) = None
             \<and> resolvedValue e s punkIndex saleValue toAddress = 0)"
    by blast+
  from handlePunkBought_cases [OF h1 h2, where fromAddress = fromAddress] h3
  show "\<exists>s' state'.
          handlePunkBought e s event punkIndex saleValue fromAddress toAddress = Some s'
          \<and> states s' (st_id state2) = Some state'
          \<and> st_topSale state'
               = considerTop (st_topSale state2) (events s) (getGlobalId event)
                   (resolvedValue e s punkIndex saleValue toAddress)"
    by auto
next
  show "topId = None
       \<or> (\<exists>t. topId = Some t \<and> (evs t = None \<or> (\<exists>p. evs t = Some p \<and> \<not> 0 < ev_value p)))
      \<Longrightarrow> considerTop topId evs candidateId candidateValue = Some candidateId"
    using considerTop_cases [of topId evs candidateId candidateValue] by blast
next
  show "\<forall>t p. topId = Some t \<and> evs t = Some p \<and> 0 < ev_value p
      \<longrightarrow> considerTop topId evs candidateId candidateValue
            = (if ev_value p < candidateValue then Some candidateId else Some t)"
    using considerTop_cases [of topId evs candidateId candidateValue] by blast
qed

text \<open>
  The theorem at a top bid and a top sale of 50: a bid of 50 leaves the top bid, a sale for
  60 becomes the top sale.
\<close>

theorem top_rank_rule_witness:
  "getOrCreateState env0 topStore (block_timestamp offerEvent) = Some topSnapshot
   \<and> map_option ev_value (events topStore ''0xg-1'') = Some 50
   \<and> (\<exists>s' state'. handlePunkBidEntered env0 topStore offerEvent 7 50 ''0xc'' = Some s'
          \<and> states s' ''2'' = Some state' \<and> st_topBid state' = Some ''0xg-1'')
   \<and> (\<exists>s' state'. handlePunkBought env0 topStore offerEvent 7 60 ''0xa'' ''0xb'' = Some s'
          \<and> states s' ''2'' = Some state' \<and> st_topSale state' = Some ''0xh-3'')"
proof -
  have h: "getOrCreateState env0 topStore (block_timestamp offerEvent) = Some topSnapshot"
    using topStore_state [of topStore] by (simp add: offerEvent_def)
  have v: "map_option ev_value (events topStore ''0xg-1'') = Some 50"
    by (simp add: topStore_def emptyStore_def mkEvent_def)
  have h2: "getOrCreateState env0 (Listing_remove (bigIntToString 7) topStore)
              (block_timestamp offerEvent) = Some topSnapshot
       \<and> toI32 (st_timestamp topSnapshot) = Some 172800
       \<and> \<not> (bids topStore (bigIntToString 7) = None
             \<and> resolvedValue env0 topStore 7 60 ''0xb'' = 0)"
    using topStore_state [of "Listing_remove (bigIntToString 7) topStore"]
    by (simp add: offerEvent_def Listing_remove_def topSnapshot_def mkState_def env0_bucket
          resolvedValue_def env0_def)
  note r = top_rank_rule [where e = env0 and s = topStore and bidEvent = offerEvent
      and state = topSnapshot and bidPunk = 7 and bidValue = 50 and bidder = "''0xc''"
      and punkIndex = 7 and event = offerEvent and ?state2.0 = topSnapshot and ts = 172800
      and saleValue = 60 and toAddress = "''0xb''" and fromAddress = "''0xa''"]
  from r [THEN conjunct1] h
  have "\<exists>s' state'.
          handlePunkBidEntered env0 topStore offerEvent 7 50 ''0xc'' = Some s'
          \<and> states s' (st_id topSnapshot) = Some state'
          \<and> st_topBid state'
               = considerTop (st_topBid topSnapshot) (events topStore) (getGlobalId offerEvent) 50"
    by (rule mp)
  then have b: "\<exists>s' state'. handlePunkBidEntered env0 topStore offerEvent 7 50 ''0xc'' = Some s'
          \<and> states s' ''2'' = Some state' \<and> st_topBid state' = Some ''0xg-1''"
    by (simp add: considerTop_def topSnapshot_def mkState_def topStore_def emptyStore_def
          mkEvent_def)
  from r [THEN conjunct2, THEN conjunct1] h2
  have "\<exists>s' state'.
          handlePunkBought env0 topStore offerEvent 7 60 ''0xa'' ''0xb'' = Some s'
          \<and> states s' (st_id topSnapshot) = Some state'
          \<and> st_topSale state'
               = considerTop (st_topSale topSnapshot) (events topStore) (getGlobalId offerEvent)
                   (resolvedValue env0 topStore 7 60 ''0xb'')"
    by (rule mp)
  then have c: "\<exists>s' state'. handlePunkBought env0 topStore offerEvent 7 60 ''0xa'' ''0xb'' = Some s'
          \<and> states s' ''2'' = Some state' \<and> st_topSale state' = Some ''0xh-3''"
    by (simp add: considerTop_def topSnapshot_def mkState_def topStore_def emptyStore_def
          mkEvent_def resolvedValue_def env0_def offerEvent_id)
  from h v b c show ?thesis by blast
qed

subsection \<open>C5: the receiver's held punks\<close>

text \<open>
  Claim C5, as amended. Whenever \<open>getOrCreateState\<close> gives a snapshot for the block's
  timestamp, \<open>updateOwnership\<close> returns, and the receiver's held punks are afterwards the
  ones held before followed by the transferred id: the id is appended unconditionally, so
  it occurs once more than before, also when it was already there.
\<close>

theorem updateOwnership_receiver_appends:
  assumes "getOrCreateState e s blockTimestamp = Some state"
  shows "\<exists>s'. updateOwnership e s transactionHash blockTimestamp punkId toAddress fromAddress = Some s'
           \<and> heldPunks s' toAddress = heldPunks s toAddress @ [punkId]
           \<and> count_list (heldPunks s' toAddress) punkId
                = count_list (heldPunks s toAddress) punkId + 1"
proof -
  from updateOwnership_Some [OF assms, of transactionHash punkId toAddress fromAddress]
  obtain s' where
    "updateOwnership e s transactionHash blockTimestamp punkId toAddress fromAddress = Some s'"
    "heldPunks s' toAddress = heldPunks s toAddress @ [punkId]"
    by blast
  then show ?thesis by simp
qed

text \<open>The theorem at a transfer of punk 8 to an account that holds punk 7.\<close>

theorem updateOwnership_receiver_appends_witness:
  "getOrCreateState env0 oneOwner 172800 = Some (mkState ''2'' 172800 0 1 [])
   \<and> (\<exists>s'. updateOwnership env0 oneOwner ''0xh'' 172800 ''8'' ''0xa'' ''0xb'' = Some s'
          \<and> heldPunks s' ''0xa'' = [''7'', ''8''])"
proof -
  have "heldPunks oneOwner ''0xa'' = [''7'']"
    by (simp add: heldPunks_def Account_load_def oneOwner_def emptyStore_def)
  then show ?thesis
    using updateOwnership_receiver_appends [OF oneOwner_state, of "''0xh''" "''8''" "''0xa''" "''0xb''"]
      oneOwner_state by auto
qed

text \<open>
  The claim as stated fails where an account that holds punk 7 transfers it to itself: the
  id was in the receiver's list, and is in it twice afterwards.
\<close>

theorem updateOwnership_idempotent_counterexample:
  "heldPunks oneOwner ''0xa'' = [''7'']
   \<and> updateOwnership env0 oneOwner ''0xh'' 172800 ''7'' ''0xa'' ''0xa'' \<noteq> None
   \<and> heldPunks (the (updateOwnership env0 oneOwner ''0xh'' 172800 ''7'' ''0xa'' ''0xa'')) ''0xa''
        = [''7'', ''7'']"
proof -
  have h: "heldPunks oneOwner ''0xa'' = [''7'']"
    by (simp add: heldPunks_def Account_load_def oneOwner_def emptyStore_def)
  from updateOwnership_Some [OF oneOwner_state, of "''0xh''" "''7''" "''0xa''" "''0xa''"]
  obtain s' where
    "updateOwnership env0 oneOwner ''0xh'' 172800 ''7'' ''0xa'' ''0xa'' = Some s'"
    "heldPunks s' ''0xa'' = heldPunks oneOwner ''0xa'' @ [''7'']"
    by blast
  with h show ?thesis by simp
qed

subsection \<open>C6: the distinct-owner counter\<close>

text \<open>
  Claim C6, as amended. Whenever \<open>getOrCreateState\<close> gives a snapshot for the block's
  timestamp, \<open>updateOwnership\<close> returns and saves that snapshot with its owner count
  incremented exactly when the receiver held nothing before the addition, and decremented
  exactly when the sender's list of held punks has exactly one entry before the removal.
  Where the sender's list has no duplicates and contains the transferred punk, that is
  exactly when the list is empty after the removal. Consequently the count is unchanged by
  a transfer from an account that holds only that punk to an account that holds nothing,
  unchanged by a transfer between two accounts of which the sender holds two or more punks
  and the receiver at least one, and incremented by one by a transfer to an account that
  holds nothing from a sender that holds two or more.
\<close>

theorem updateOwnership_owners:
  assumes "getOrCreateState e s blockTimestamp = Some state"
  shows "\<exists>s' state'.
           updateOwnership e s transactionHash blockTimestamp punkId toAddress fromAddress = Some s'
           \<and> states s' (st_id state) = Some state'
           \<and> st_owners state' = st_owners state
                - (if length (heldPunks s fromAddress) = 1 then 1 else 0)
                + (if heldPunks s toAddress = [] then 1 else 0)
           \<and> (distinct (heldPunks s fromAddress) \<and> punkId \<in> set (heldPunks s fromAddress) \<longrightarrow>
                st_owners state' = st_owners state
                  - (if filter (\<lambda>n. n \<noteq> punkId) (heldPunks s fromAddress) = [] then 1 else 0)
                  + (if heldPunks s toAddress = [] then 1 else 0))
           \<and> (heldPunks s fromAddress = [punkId] \<and> heldPunks s toAddress = [] \<longrightarrow>
                st_owners state' = st_owners state)
           \<and> (2 \<le> length (heldPunks s fromAddress) \<and> heldPunks s toAddress \<noteq> [] \<longrightarrow>
                st_owners state' = st_owners state)
           \<and> (2 \<le> length (heldPunks s fromAddress) \<and> heldPunks s toAddress = [] \<longrightarrow>
                st_owners state' = st_owners state + 1)"
proof -
  define state' where "state' = state\<lparr>st_owners := st_owners state
                        - (if length (heldPunks s fromAddress) = 1 then 1 else 0)
                        + (if length (heldPunks s toAddress) = 0 then 1 else 0)\<rparr>"
  from updateOwnership_Some [OF assms, of transactionHash punkId toAddress fromAddress]
  obtain s' where s':
    "updateOwnership e s transactionHash blockTimestamp punkId toAddress fromAddress = Some s'"
    "states s' = (states s)(st_id state \<mapsto> state')"
    unfolding state'_def by blast
  have ow: "st_owners state' = st_owners state
              - (if length (heldPunks s fromAddress) = 1 then 1 else 0)
              + (if heldPunks s toAddress = [] then 1 else 0)"
    by (simp add: state'_def)
  have single: "length xs = 1 \<longleftrightarrow> filter (\<lambda>n. n \<noteq> punkId) xs = []"
    if "distinct xs" "punkId \<in> set xs" for xs :: "string list"
  proof
    assume "length xs = 1"
    then obtain x where "xs = [x]" by (cases xs) auto
    with that show "filter (\<lambda>n. n \<noteq> punkId) xs = []" by simp
  next
    assume "filter (\<lambda>n. n \<noteq> punkId) xs = []"
    then have "set xs \<subseteq> {punkId}" by (auto simp: filter_empty_conv)
    with that have "set xs = {punkId}" by auto
    with that(1) have "card (set xs) = 1" by simp
    with that(1) show "length xs = 1" by (simp add: distinct_card)
  qed
  have "states s' (st_id state) = Some state'"
    using s'(2) by simp
  with s'(1) ow single [of "heldPunks s fromAddress"] show ?thesis
    by (intro exI [of _ s'] exI [of _ state']) auto
qed

text \<open>
  The theorem at a transfer of punk 7 from the account that holds only it to a new account.
\<close>

theorem updateOwnership_owners_witness:
  "getOrCreateState env0 oneOwner 172800 = Some (mkState ''2'' 172800 0 1 [])
   \<and> heldPunks oneOwner ''0xa'' = [''7''] \<and> heldPunks oneOwner ''0xb'' = []
   \<and> (\<exists>s' state'. updateOwnership env0 oneOwner ''0xh'' 172800 ''7'' ''0xb'' ''0xa'' = Some s'
          \<and> states s' ''2'' = Some state' \<and> st_owners state' = 1)"
proof -
  have h: "heldPunks oneOwner ''0xa'' = [''7'']" "heldPunks oneOwner ''0xb'' = []"
    by (simp_all add: heldPunks_def Account_load_def oneOwner_def emptyStore_def)
  from updateOwnership_owners [OF oneOwner_state, of "''0xh''" "''7''" "''0xb''" "''0xa''"]
  obtain s' state' where
    "updateOwnership env0 oneOwner ''0xh'' 172800 ''7'' ''0xb'' ''0xa'' = Some s'"
    "states s' (st_id (mkState ''2'' 172800 0 1 [])) = Some state'"
    "st_owners state' = st_owners (mkState ''2'' 172800 0 1 [])
        - (if length (heldPunks oneOwner ''0xa'') = 1 then 1 else 0)
        + (if heldPunks oneOwner ''0xb'' = [] then 1 else 0)"
    by blast
  then have "updateOwnership env0 oneOwner ''0xh'' 172800 ''7'' ''0xb'' ''0xa'' = Some s'
      \<and> states s' ''2'' = Some state' \<and> st_owners state' = 1"
    using h by (simp add: mkState_def)
  with h oneOwner_state show ?thesis by blast
qed

text \<open>
  The claim as stated fails where the sender's list holds punk 7 twice, as it does after a
  transfer of the punk to oneself: the list is empty after the removal and the receiver is
  new, yet the count goes from 1 to 2, since the list had two entries.
\<close>

theorem updateOwnership_owners_counterexample:
  "heldPunks dupOwner ''0xa'' = [''7'', ''7''] \<and> heldPunks dupOwner ''0xb'' = []
   \<and> map_option st_owners (states dupOwner ''2'') = Some 1
   \<and> updateOwnership env0 dupOwner ''0xh'' 172800 ''7'' ''0xb'' ''0xa'' \<noteq> None
   \<and> heldPunks (the (updateOwnership env0 dupOwner ''0xh'' 172800 ''7'' ''0xb'' ''0xa'')) ''0xa'' = []
   \<and> map_option st_owners
        (states (the (updateOwnership env0 dupOwner ''0xh'' 172800 ''7'' ''0xb'' ''0xa'')) ''2'')
       = Some 2"
proof -
  have h: "heldPunks dupOwner ''0xa'' = [''7'', ''7'']" "heldPunks dupOwner ''0xb'' = []"
    "map_option st_owners (states dupOwner ''2'') = Some 1"
    by (simp_all add: heldPunks_def Account_load_def dupOwner_def emptyStore_def mkState_def)
  from updateOwnership_Some [OF dupOwner_state, of "''0xh''" "''7''" "''0xb''" "''0xa''"]
  obtain s' where
    "updateOwnership env0 dupOwner ''0xh'' 172800 ''7'' ''0xb'' ''0xa'' = Some s'"
    "states s' = (states dupOwner)(st_id (mkState ''2'' 172800 0 1 []) \<mapsto>
        (mkState ''2'' 172800 0 1 [])\<lparr>st_owners := st_owners (mkState ''2'' 172800 0 1 [])
                        - (if length (heldPunks dupOwner ''0xa'') = 1 then 1 else 0)
                        + (if length (heldPunks dupOwner ''0xb'') = 0 then 1 else 0)\<rparr>)"
    "heldPunks s' ''0xa'' = filter (\<lambda>n. n \<noteq> ''7'') (heldPunks dupOwner ''0xa'')"
    by auto
  with h show ?thesis by (simp add: mkState_def)
qed

subsection \<open>C7: a sale whose buyer is reported as the zero address\<close>

text \<open>
  Claim C7. For a Bought event whose buyer is the zero address, on a punk that has a bid,
  where \<open>getOrCreateState\<close> gives a snapshot once the listing is closed and \<open>toI32\<close> accepts
  its timestamp: \<open>handlePunkBought\<close> returns; it takes the bid's bidder as the buyer (who
  becomes the punk's owner and holds it) and the bid's value as the value; the bid and
  the listing of the punk are deleted; an event of type Sale with that buyer and that value
  is stored under the event's id; and the snapshot is saved with its sales counter
  incremented by one and its volume by that value.
\<close>

theorem handlePunkBought_zero_buyer:
  assumes "getOrCreateState e (Listing_remove (bigIntToString punkIndex) s)
             (block_timestamp event) = Some state"
    and "toI32 (st_timestamp state) = Some ts"
    and "toAddress = ZERO_ADDRESS e"
    and "bids s (bigIntToString punkIndex) = Some bid"
  shows "\<exists>s' state' evnt.
           handlePunkBought e s event punkIndex value fromAddress toAddress = Some s'
           \<and> bids s' (bigIntToString punkIndex) = None
           \<and> listings s' (bigIntToString punkIndex) = None
           \<and> events s' (getGlobalId event) = Some evnt
           \<and> ev_type evnt = ''Sale'' \<and> ev_toAccount evnt = Some (bid_fromAccount bid)
           \<and> ev_value evnt = bid_value bid
           \<and> map_option punk_owner (punks s' (bigIntToString punkIndex))
                = Some (bid_fromAccount bid)
           \<and> heldPunks s' (bid_fromAccount bid)
                = heldPunks s (bid_fromAccount bid) @ [bigIntToString punkIndex]
           \<and> states s' (st_id state) = Some state'
           \<and> st_sales state' = st_sales state + 1
           \<and> st_volume state' = st_volume state + bid_value bid"
proof -
  have b: "resolvedBuyer e s punkIndex toAddress = bid_fromAccount bid"
    and v: "resolvedValue e s punkIndex value toAddress = bid_value bid"
    and c: "closesBid e s punkIndex toAddress"
    using assms(3,4) by (simp_all add: resolvedBuyer_def resolvedValue_def closesBid_def)
  have h2: "(bids s (bigIntToString punkIndex) = None
              \<and> resolvedValue e s punkIndex value toAddress = 0)
            \<or> toI32 (st_timestamp state) = Some ts"
    using assms(2) by simp
  from handlePunkBought_cases [OF assms(1) h2, where fromAddress = fromAddress]
  show ?thesis
    unfolding b v using c assms(4) by (auto simp: mkEvent_def)
qed

text \<open>
  The theorem at the scenario of the specification: a bid of 50 by \<open>0xb\<close> on punk 3, bought
  from \<open>0xa\<close> with value 0 and the zero address as buyer.
\<close>

theorem handlePunkBought_zero_buyer_witness:
  "getOrCreateState env0 (Listing_remove (bigIntToString 3) bidStore) (block_timestamp offerEvent)
      = Some (mkState ''2'' 172800 0 1 [''3''])
   \<and> toI32 (st_timestamp (mkState ''2'' 172800 0 1 [''3''])) = Some 172800
   \<and> ''0x0'' = ZERO_ADDRESS env0
   \<and> bids bidStore (bigIntToString 3) = Some (mkBid ''3'' 50 ''0xb'')
   \<and> (\<exists>s' state' evnt.
          handlePunkBought env0 bidStore offerEvent 3 0 ''0xa'' ''0x0'' = Some s'
          \<and> bids s' ''3'' = None \<and> listings s' ''3'' = None
          \<and> events s' ''0xh-3'' = Some evnt
          \<and> ev_type evnt = ''Sale'' \<and> ev_toAccount evnt = Some ''0xb'' \<and> ev_value evnt = 50
          \<and> states s' ''2'' = Some state' \<and> st_sales state' = 1 \<and> st_volume state' = 50)"
proof -
  have h1: "getOrCreateState env0 (Listing_remove (bigIntToString 3) bidStore)
              (block_timestamp offerEvent) = Some (mkState ''2'' 172800 0 1 [''3''])"
    using bidStore_state [of "Listing_remove (bigIntToString 3) bidStore"]
    by (simp add: offerEvent_def Listing_remove_def)
  have h2: "toI32 (st_timestamp (mkState ''2'' 172800 0 1 [''3''])) = Some 172800"
    by (simp add: mkState_def env0_bucket)
  have h3: "''0x0'' = ZERO_ADDRESS env0"
    by (simp add: env0_def)
  have h4: "bids bidStore (bigIntToString 3) = Some (mkBid ''3'' 50 ''0xb'')"
    by (simp add: bidStore_def emptyStore_def bigIntToString_3)
  from handlePunkBought_zero_buyer [OF h1 h2 h3 h4, of 0 "''0xa''"]
  have "\<exists>s' state' evnt.
          handlePunkBought env0 bidStore offerEvent 3 0 ''0xa'' ''0x0'' = Some s'
          \<and> bids s' ''3'' = None \<and> listings s' ''3'' = None
          \<and> events s' ''0xh-3'' = Some evnt
          \<and> ev_type evnt = ''Sale'' \<and> ev_toAccount evnt = Some ''0xb'' \<and> ev_value evnt = 50
          \<and> states s' ''2'' = Some state' \<and> st_sales state' = 1 \<and> st_volume state' = 50"
    by (simp add: bigIntToString_3 offerEvent_id mkBid_def mkState_def) blast
  with h1 h2 h3 h4 show ?thesis by blast
qed

subsection \<open>C8: a sale of value zero without a bid\<close>

text \<open>
  Claim C8. For a Bought event of value zero on a punk that has no bid, at a timestamp that
  \<open>toI32\<close> accepts: \<open>handlePunkBought\<close> returns; the events of the store are what they were,
  so no Sale event is created; and the snapshot saved for the bucket has the sales counter,
  the volume, the top sale, the active listings and the floor of the snapshot that
  \<open>getOrCreateState\<close> gives once the listing is closed, which are those of the snapshot
  stored before, when there is one.
\<close>

theorem handlePunkBought_zero_value_ignored:
  assumes "toI32 (block_timestamp event) = Some ts"
    and "bids s (bigIntToString punkIndex) = None"
    and "value = 0"
  shows "\<exists>s' state state'.
           handlePunkBought e s event punkIndex value fromAddress toAddress = Some s'
           \<and> events s' = events s
           \<and> getOrCreateState e (Listing_remove (bigIntToString punkIndex) s)
                (block_timestamp event) = Some state
           \<and> states s' (timestampToId e ts 0) = Some state'
           \<and> st_sales state' = st_sales state \<and> st_volume state' = st_volume state
           \<and> st_topSale state' = st_topSale state
           \<and> st_activeListings state' = st_activeListings state
           \<and> st_floor state' = st_floor state
           \<and> (\<forall>old. states s (timestampToId e ts 0) = Some old \<longrightarrow>
                st_sales state' = st_sales old \<and> st_volume state' = st_volume old
                \<and> st_topSale state' = st_topSale old
                \<and> st_activeListings state' = st_activeListings old
                \<and> st_floor state' = st_floor old)"
proof -
  let ?pid = "bigIntToString punkIndex"
  from getOrCreateState_total [OF assms(1), of e "Listing_remove ?pid s"]
  obtain state where
    st: "getOrCreateState e (Listing_remove ?pid s) (block_timestamp event) = Some state"
    by blast
  have sid: "st_id state = timestampToId e ts 0"
    using getOrCreateState_id [OF assms(1) st] .
  have v: "resolvedValue e s punkIndex value toAddress = 0"
    using assms(2,3) by (simp add: resolvedValue_def)
  have h2: "(bids s ?pid = None \<and> resolvedValue e s punkIndex value toAddress = 0)
            \<or> toI32 (st_timestamp state) = Some 0"
    using assms(2) v by simp
  from handlePunkBought_cases [OF st h2, where fromAddress = fromAddress]
  obtain s' where
    s': "handlePunkBought e s event punkIndex value fromAddress toAddress = Some s'"
      "events s' = events s"
      "states s' = (states s)(st_id state \<mapsto>
          state\<lparr>st_owners := st_owners state
              - (if length (heldPunks s fromAddress) = 1 then 1 else 0)
              + (if length (heldPunks s (resolvedBuyer e s punkIndex toAddress)) = 0
                 then 1 else 0)\<rparr>)"
    using assms(2) v by auto
  define state' where "state' = state\<lparr>st_owners := st_owners state
              - (if length (heldPunks s fromAddress) = 1 then 1 else 0)
              + (if length (heldPunks s (resolvedBuyer e s punkIndex toAddress)) = 0
                 then 1 else 0)\<rparr>"
  have look: "states s' (timestampToId e ts 0) = Some state'"
    using s'(3) by (simp add: sid state'_def)
  have same: "st_sales state' = st_sales state" "st_volume state' = st_volume state"
    "st_topSale state' = st_topSale state" "st_activeListings state' = st_activeListings state"
    "st_floor state' = st_floor state"
    by (simp_all add: state'_def)
  have old: "state = old\<lparr>st_id := timestampToId e ts 0\<rparr>"
    if "states s (timestampToId e ts 0) = Some old" for old
  proof -
    have "State_load (Listing_remove ?pid s) (timestampToId e ts 0)
            = Some (old\<lparr>st_id := timestampToId e ts 0\<rparr>)"
      using that by (simp add: State_load_def Listing_remove_def)
    from getOrCreateState_existing [OF assms(1) this] st show ?thesis by simp
  qed
  show ?thesis
    apply (rule exI [of _ s'])
    apply (rule exI [of _ state])
    apply (rule exI [of _ state'])
    using s'(1,2) st look same old by auto
qed

text \<open>The theorem at a sale of punk 9 for 0, from \<open>0xa\<close> to \<open>0xc\<close>, with no bid on the punk.\<close>

theorem handlePunkBought_zero_value_ignored_witness:
  "toI32 (block_timestamp offerEvent) = Some 172800 \<and> bids bidStore (bigIntToString 9) = None
   \<and> (\<exists>s' state'. handlePunkBought env0 bidStore offerEvent 9 0 ''0xa'' ''0xc'' = Some s'
          \<and> events s' = events bidStore
          \<and> states s' ''2'' = Some state'
          \<and> st_sales state' = 0 \<and> st_volume state' = 0 \<and> st_topSale state' = None
          \<and> st_activeListings state' = [''3''] \<and> st_floor state' = 0)"
proof -
  have h1: "toI32 (block_timestamp offerEvent) = Some 172800"
    by (simp add: offerEvent_def env0_bucket)
  have h2: "bids bidStore (bigIntToString 9) = None"
    by (simp add: bidStore_def emptyStore_def bigIntToString_9)
  have old: "states bidStore (timestampToId env0 172800 0) = Some (mkState ''2'' 172800 0 1 [''3''])"
    by (simp add: bidStore_def emptyStore_def env0_bucket)
  from handlePunkBought_zero_value_ignored [OF h1 h2 refl, of env0 "''0xa''" "''0xc''"]
  obtain s' state' where
    "handlePunkBought env0 bidStore offerEvent 9 0 ''0xa'' ''0xc'' = Some s'"
    "events s' = events bidStore"
    "states s' (timestampToId env0 172800 0) = Some state'"
    "\<forall>old. states bidStore (timestampToId env0 172800 0) = Some old \<longrightarrow>
                st_sales state' = st_sales old \<and> st_volume state' = st_volume old
                \<and> st_topSale state' = st_topSale old
                \<and> st_activeListings state' = st_activeListings old
                \<and> st_floor state' = st_floor old"
    by blast
  with old have "handlePunkBought env0 bidStore offerEvent 9 0 ''0xa'' ''0xc'' = Some s'
          \<and> events s' = events bidStore
          \<and> states s' ''2'' = Some state'
          \<and> st_sales state' = 0 \<and> st_volume state' = 0 \<and> st_topSale state' = None
          \<and> st_activeListings state' = [''3''] \<and> st_floor state' = 0"
    by (simp add: env0_bucket mkState_def)
  with h1 h2 show ?thesis by blast
qed

subsection \<open>C9: a punk no longer for sale\<close>

text \<open>
  Claim C9. For a no-longer-for-sale event, where \<open>getOrCreateState\<close> gives a snapshot once
  the listing is closed and \<open>toI32\<close> accepts its timestamp: \<open>handlePunkNoLongerForSale\<close>
  returns; the listing of the punk is deleted; the snapshot is saved with the punk's id
  removed from the active listings and with the floor that \<open>getFloorFromActiveListings\<close>
  computes from these. When the store has a Transfer under the transaction's hash, no
  event is created and the delistings counter stays; otherwise an event of type
  OfferWithdrawn is stored under the event's id and the counter is incremented by one.
\<close>

theorem handlePunkNoLongerForSale_spec:
  assumes "getOrCreateState e (Listing_remove (bigIntToString punkIndex) s)
             (block_timestamp event) = Some state"
    and "toI32 (st_timestamp state) = Some ts"
  shows "\<exists>s' state' newFloor.
           handlePunkNoLongerForSale e s event punkIndex = Some s'
           \<and> listings s' (bigIntToString punkIndex) = None
           \<and> states s' (st_id state) = Some state'
           \<and> st_activeListings state'
                = filter (\<lambda>i. i \<noteq> bigIntToString punkIndex) (st_activeListings state)
           \<and> bigIntToString punkIndex \<notin> set (st_activeListings state')
           \<and> getFloorFromActiveListings e (Listing_remove (bigIntToString punkIndex) s)
                (state\<lparr>st_activeListings :=
                   filter (\<lambda>i. i \<noteq> bigIntToString punkIndex) (st_activeListings state)\<rparr>)
                = Some newFloor
           \<and> st_floor state' = newFloor
           \<and> (transfers s (transaction_hash event) \<noteq> None \<longrightarrow>
                events s' = events s \<and> st_delistings state' = st_delistings state)
           \<and> (transfers s (transaction_hash event) = None \<longrightarrow>
                events s' = (events s)(getGlobalId event \<mapsto>
                  mkEvent e event ''OfferWithdrawn'' punkIndex (ZERO_ADDRESS e) (ZERO_ADDRESS e) 0)
                \<and> st_delistings state' = st_delistings state + 1)"
proof -
  let ?pid = "bigIntToString punkIndex"
  from handlePunkNoLongerForSale_result [OF assms] obtain s' newFloor where
    r: "handlePunkNoLongerForSale e s event punkIndex = Some s'"
      "listings s' = (listings s)(?pid := None)"
      "getFloorFromActiveListings e (Listing_remove ?pid s)
         (state\<lparr>st_activeListings := filter (\<lambda>i. i \<noteq> ?pid) (st_activeListings state)\<rparr>)
         = Some newFloor"
      "states s' = (states s)(st_id state \<mapsto>
                state\<lparr>st_delistings := st_delistings state
                         + (if transfers s (transaction_hash event) = None then 1 else 0),
                       st_activeListings := filter (\<lambda>i. i \<noteq> ?pid) (st_activeListings state),
                       st_floor := newFloor,
                       st_usd := Some (USDValue e (block_timestamp event) (block_number event))\<rparr>)"
      "events s' =
                (if transfers s (transaction_hash event) = None
                 then (events s)(getGlobalId event \<mapsto>
                        mkEvent e event ''OfferWithdrawn'' punkIndex (ZERO_ADDRESS e)
                          (ZERO_ADDRESS e) 0)
                 else events s)"
    by blast
  define state' where "state' = state\<lparr>st_delistings := st_delistings state
                         + (if transfers s (transaction_hash event) = None then 1 else 0),
                       st_activeListings := filter (\<lambda>i. i \<noteq> ?pid) (st_activeListings state),
                       st_floor := newFloor,
                       st_usd := Some (USDValue e (block_timestamp event) (block_number event))\<rparr>"
  have look: "states s' (st_id state) = Some state'"
    using r(4) by (simp add: state'_def)
  have f: "st_activeListings state' = filter (\<lambda>i. i \<noteq> ?pid) (st_activeListings state)"
    "st_floor state' = newFloor"
    "st_delistings state' = st_delistings state
        + (if transfers s (transaction_hash event) = None then 1 else 0)"
    by (simp_all add: state'_def)
  show ?thesis
    apply (rule exI [of _ s'])
    apply (rule exI [of _ state'])
    apply (rule exI [of _ newFloor])
    using r(1,2,3,5) look f by auto
qed

text \<open>
  The theorem at a store where punk 7 is listed, without a transfer in the transaction,
  and at the same store once \<open>handleTransfer\<close> has recorded one.
\<close>

theorem handlePunkNoLongerForSale_spec_witness:
  "getOrCreateState env0 (Listing_remove (bigIntToString 7) listedStore)
      (block_timestamp offerEvent) = Some ((mkState ''2'' 172800 0 1 [''7''])\<lparr>st_listings := 1\<rparr>)
   \<and> toI32 (st_timestamp ((mkState ''2'' 172800 0 1 [''7''])\<lparr>st_listings := 1\<rparr>)) = Some 172800
   \<and> transfers listedStore (transaction_hash offerEvent) = None
   \<and> (\<exists>s' state' evnt.
          handlePunkNoLongerForSale env0 listedStore offerEvent 7 = Some s'
          \<and> listings s' ''7'' = None
          \<and> states s' ''2'' = Some state'
          \<and> st_activeListings state' = [] \<and> st_delistings state' = 1
          \<and> events s' ''0xh-3'' = Some evnt \<and> ev_type evnt = ''OfferWithdrawn'')
   \<and> getOrCreateState env0
        (Listing_remove (bigIntToString 7) (handleTransfer listedStore offerEvent ''0xa'' ''0xb''))
        (block_timestamp offerEvent) = Some ((mkState ''2'' 172800 0 1 [''7''])\<lparr>st_listings := 1\<rparr>)
   \<and> transfers (handleTransfer listedStore offerEvent ''0xa'' ''0xb'') (transaction_hash offerEvent)
        \<noteq> None
   \<and> (\<exists>s' state'.
          handlePunkNoLongerForSale env0 (handleTransfer listedStore offerEvent ''0xa'' ''0xb'')
            offerEvent 7 = Some s'
          \<and> listings s' ''7'' = None
          \<and> states s' ''2'' = Some state'
          \<and> st_activeListings state' = [] \<and> st_delistings state' = 0
          \<and> events s' = events listedStore)"
proof -
  let ?st = "(mkState ''2'' 172800 0 1 [''7''])\<lparr>st_listings := 1\<rparr>"
  let ?t = "handleTransfer listedStore offerEvent ''0xa'' ''0xb''"
  have h1: "getOrCreateState env0 (Listing_remove (bigIntToString 7) listedStore)
      (block_timestamp offerEvent) = Some ?st"
    using listedStore_state [of "Listing_remove (bigIntToString 7) listedStore"]
    by (simp add: offerEvent_def Listing_remove_def)
  have h2: "toI32 (st_timestamp ?st) = Some 172800"
    by (simp add: mkState_def env0_bucket)
  have n: "transfers listedStore (transaction_hash offerEvent) = None"
    by (simp add: listedStore_def emptyStore_def)
  have h1': "getOrCreateState env0 (Listing_remove (bigIntToString 7) ?t)
      (block_timestamp offerEvent) = Some ?st"
    using listedStore_state [of "Listing_remove (bigIntToString 7) ?t"]
    by (simp add: offerEvent_def Listing_remove_def handleTransfer_def Transfer_save_def)
  have n': "transfers ?t (transaction_hash offerEvent) \<noteq> None"
    by (simp add: handleTransfer_def Transfer_save_def)
  have ev: "events ?t = events listedStore"
    by (simp add: handleTransfer_def Transfer_save_def)
  from handlePunkNoLongerForSale_spec [OF h1 h2] n
  have a: "\<exists>s' state' evnt.
          handlePunkNoLongerForSale env0 listedStore offerEvent 7 = Some s'
          \<and> listings s' ''7'' = None
          \<and> states s' ''2'' = Some state'
          \<and> st_activeListings state' = [] \<and> st_delistings state' = 1
          \<and> events s' ''0xh-3'' = Some evnt \<and> ev_type evnt = ''OfferWithdrawn''"
    by (auto simp: bigIntToString_7 mkState_def offerEvent_id mkEvent_def)
  from handlePunkNoLongerForSale_spec [OF h1' h2] n' ev
  have b: "\<exists>s' state'.
          handlePunkNoLongerForSale env0 ?t offerEvent 7 = Some s'
          \<and> listings s' ''7'' = None
          \<and> states s' ''2'' = Some state'
          \<and> st_activeListings state' = [] \<and> st_delistings state' = 0
          \<and> events s' = events listedStore"
    by (auto simp: bigIntToString_7 mkState_def)
  from h1 h2 n a h1' n' b show ?thesis by blast
qed

subsection \<open>C10: duplicates among the active listings\<close>

text \<open>
  Claim C10. Whenever \<open>getOrCreateState\<close> gives a snapshot once the listing is saved,
  \<open>handlePunkOffered\<close> returns and saves the snapshot with the punk's id appended to the
  active listings, whether the id is among them or not: it occurs once more than before.
  The threshold of the floor counts these entries and not the punks listed: where the
  snapshot had the id alone, four times or more, and the offer's value is positive,
  \<open>getFloorFromActiveListings\<close> on the saved snapshot is that value, the minimum over the
  listings, and not the floor of the previous bucket.
\<close>

theorem handlePunkOffered_appends_duplicate:
  assumes "getOrCreateState e
             (Listing_save (offeredListing e event punkIndex minValue toAddress) s)
             (block_timestamp event) = Some state"
  shows "\<exists>s' state'. handlePunkOffered e s event punkIndex minValue toAddress = Some s'
           \<and> states s' (st_id state) = Some state'
           \<and> st_activeListings state' = st_activeListings state @ [bigIntToString punkIndex]
           \<and> count_list (st_activeListings state') (bigIntToString punkIndex)
                = count_list (st_activeListings state) (bigIntToString punkIndex) + 1
           \<and> (toI32 (st_timestamp state) = Some ts \<and> 4 \<le> n \<and> 0 < minValue
                \<and> st_activeListings state = replicate n (bigIntToString punkIndex) \<longrightarrow>
                getFloorFromActiveListings e s' state' = Some minValue)"
proof -
  let ?pid = "bigIntToString punkIndex"
  define state' where "state' = state\<lparr>st_listings := st_listings state + 1,
                       st_activeListings := st_activeListings state @ [?pid],
                       st_floor := (if toAddress \<noteq> ZERO_ADDRESS e \<and> minValue \<noteq> 0
                                       \<and> minValue < st_floor state
                                    then minValue else st_floor state),
                       st_usd := Some (USDValue e (block_timestamp event) (block_number event))\<rparr>"
  from handlePunkOffered_result [OF assms] obtain s' where
    s': "handlePunkOffered e s event punkIndex minValue toAddress = Some s'"
      "listings s' = (listings s)(?pid \<mapsto> offeredListing e event punkIndex minValue toAddress)"
      "states s' = (states s)(st_id state \<mapsto> state')"
    unfolding state'_def by blast
  have act: "st_activeListings state' = st_activeListings state @ [?pid]"
    by (simp add: state'_def)
  have fl: "getFloorFromActiveListings e s' state' = Some minValue"
    if h: "toI32 (st_timestamp state) = Some ts" "4 \<le> n" "0 < minValue"
      "st_activeListings state = replicate n ?pid"
  proof -
    have ts: "toI32 (st_timestamp state') = Some ts"
      using h(1) by (simp add: state'_def)
    have ids: "st_activeListings state' = replicate (Suc n) ?pid"
      using act h(4) by (simp add: replicate_append_same)
    have pv: "positiveValues s' (replicate k ?pid) = replicate k minValue" for k
      using h(3) s'(2)
      by (induction k) (simp_all add: positiveValues_Nil positiveValues_Cons offeredListing_def)
    show ?thesis
      using h(2) by (simp add: getFloor_positiveValues [OF ts] ids pv del: replicate_Suc)
  qed
  have "states s' (st_id state) = Some state'"
    using s'(3) by simp
  with s'(1) act fl show ?thesis
    by (intro exI [of _ s'] exI [of _ state']) simp
qed

text \<open>The theorem at a fifth offer of punk 7, for 30.\<close>

theorem handlePunkOffered_appends_duplicate_witness:
  "getOrCreateState env0
      (Listing_save (offeredListing env0 offerEvent 7 30 ''0x0'') fourTimesListed)
      (block_timestamp offerEvent) = Some (mkState ''2'' 172800 0 0 [''7'', ''7'', ''7'', ''7''])
   \<and> (\<exists>s' state'. handlePunkOffered env0 fourTimesListed offerEvent 7 30 ''0x0'' = Some s'
          \<and> states s' ''2'' = Some state'
          \<and> st_activeListings state' = [''7'', ''7'', ''7'', ''7'', ''7'']
          \<and> getFloorFromActiveListings env0 s' state' = Some 30)"
proof -
  have h: "getOrCreateState env0
      (Listing_save (offeredListing env0 offerEvent 7 30 ''0x0'') fourTimesListed)
      (block_timestamp offerEvent) = Some (mkState ''2'' 172800 0 0 [''7'', ''7'', ''7'', ''7''])"
    using fourTimesListed_state by (simp add: offerEvent_def)
  have pre: "toI32 (st_timestamp (mkState ''2'' 172800 0 0 [''7'', ''7'', ''7'', ''7''])) = Some 172800
      \<and> (4::nat) \<le> 4 \<and> (0::int) < 30
      \<and> st_activeListings (mkState ''2'' 172800 0 0 [''7'', ''7'', ''7'', ''7''])
          = replicate 4 (bigIntToString 7)"
    by (simp add: mkState_def env0_bucket bigIntToString_7 numeral_eq_Suc)
  from handlePunkOffered_appends_duplicate [OF h, of 172800 4] pre
  obtain s' state' where
    "handlePunkOffered env0 fourTimesListed offerEvent 7 30 ''0x0'' = Some s'"
    "states s' (st_id (mkState ''2'' 172800 0 0 [''7'', ''7'', ''7'', ''7''])) = Some state'"
    "st_activeListings state'
       = st_activeListings (mkState ''2'' 172800 0 0 [''7'', ''7'', ''7'', ''7'']) @ [bigIntToString 7]"
    "getFloorFromActiveListings env0 s' state' = Some 30"
    by blast
  then have "handlePunkOffered env0 fourTimesListed offerEvent 7 30 ''0x0'' = Some s'
          \<and> states s' ''2'' = Some state'
          \<and> st_activeListings state' = [''7'', ''7'', ''7'', ''7'', ''7'']
          \<and> getFloorFromActiveListings env0 s' state' = Some 30"
    by (simp add: mkState_def bigIntToString_7)
  with h show ?thesis by blast
qed

end
